theory Spec2Isabelle
  imports Complex_Main "HOL-Library.Sublist" "HOL-Library.AList"
begin

section \<open>JavaScript values used by the bot\<close>

subsection \<open>Numbers\<close>

text \<open>
  A JavaScript number is an IEEE 754 binary64 value. A finite one is a dyadic rational and
  is kept as that rational; the sign of zero is dropped, since the only operation the bot
  performs on a parsed amount is the comparison \<open><\<close>, which does not see it.
\<close>

datatype js_number = Num rat | PosInfinity | NegInfinity | NaN

text \<open>The relational operator \<open><\<close> on numbers: false as soon as an operand is NaN.\<close>

fun js_less :: "js_number \<Rightarrow> js_number \<Rightarrow> bool" where
  "js_less NaN _ = False"
| "js_less _ NaN = False"
| "js_less (Num a) (Num b) = (a < b)"
| "js_less (Num _) PosInfinity = True"
| "js_less (Num _) NegInfinity = False"
| "js_less PosInfinity _ = False"
| "js_less NegInfinity NegInfinity = False"
| "js_less NegInfinity _ = True"

text \<open>\<open>>=\<close> is not the negation of \<open><\<close>: both are false on NaN.\<close>

fun js_ge :: "js_number \<Rightarrow> js_number \<Rightarrow> bool" where
  "js_ge NaN _ = False"
| "js_ge _ NaN = False"
| "js_ge a b = (\<not> js_less a b)"

subsection \<open>Rounding a rational to binary64 (round to nearest, ties to even)\<close>

function bit_length :: "int \<Rightarrow> int" where
  "bit_length n = (if n \<le> 0 then 0 else 1 + bit_length (n div 2))"
  by pat_completeness auto
termination
  by (relation "measure nat") auto

declare bit_length.simps [simp del]

definition pow2 :: "int \<Rightarrow> rat" where
  "pow2 k = (if 0 \<le> k then 2 ^ nat k else 1 / 2 ^ nat (- k))"

text \<open>
  \<open>ilog2 n d\<close> is the integer \<open>e\<close> with \<open>2^e \<le> n/d < 2^(e+1)\<close>, for positive
  \<open>n\<close> and \<open>d\<close>: the difference of the bit lengths, or one less.
\<close>

definition ilog2 :: "int \<Rightarrow> int \<Rightarrow> int" where
  "ilog2 n d =
     (let k = bit_length n - bit_length d
      in if (if 0 \<le> k then d * 2 ^ nat k \<le> n else d \<le> n * 2 ^ nat (- k))
         then k else k - 1)"

text \<open>The integer nearest to \<open>n/d\<close> (\<open>d\<close> positive), a tie going to the even one.\<close>

definition round_half_even :: "int \<Rightarrow> int \<Rightarrow> int" where
  "round_half_even n d =
     (let q = n div d; r = n mod d
      in if 2 * r < d then q
         else if d < 2 * r then q + 1
         else if even q then q else q + 1)"

text \<open>
  53 significant bits, exponents from -1022 (below which the spacing stays that of the
  subnormals, \<open>2^-1074\<close>) to 1023; a result that reaches \<open>2^1024\<close> is an infinity.
\<close>

definition round_double :: "int \<Rightarrow> int \<Rightarrow> js_number" where
  \<comment> \<open>the number nearest to \<open>n/d\<close>, for \<open>n \<ge> 0\<close> and \<open>d > 0\<close>\<close>
  "round_double n d =
     (if n = 0 then Num 0
      else let s = max (ilog2 n d) (- 1022) - 52;
               m = (if 0 \<le> s then round_half_even n (d * 2 ^ nat s)
                    else round_half_even (n * 2 ^ nat (- s)) d);
               r = of_int m * pow2 s
           in if pow2 1024 \<le> r then PosInfinity else Num r)"

subsection \<open>Strings and \<open>parseFloat\<close>\<close>

text \<open>
  Strings are byte strings: ASCII as it is, any other character as its UTF-8 bytes.

  \<open>parseFloat\<close> drops leading white space and line terminators, takes the longest prefix
  of the rest that is a decimal literal (optional sign, then \<open>Infinity\<close>, or digits with
  an optional fraction and an optional exponent), and returns NaN when there is none.
\<close>

definition js_whitespace :: "string list" where
  "js_whitespace =
     [[CHR 0x09], [CHR 0x0A], [CHR 0x0B], [CHR 0x0C], [CHR 0x0D], [CHR 0x20],
      [CHR 0xC2, CHR 0xA0],
      [CHR 0xE1, CHR 0x9A, CHR 0x80],
      [CHR 0xE2, CHR 0x80, CHR 0x80], [CHR 0xE2, CHR 0x80, CHR 0x81],
      [CHR 0xE2, CHR 0x80, CHR 0x82], [CHR 0xE2, CHR 0x80, CHR 0x83],
      [CHR 0xE2, CHR 0x80, CHR 0x84], [CHR 0xE2, CHR 0x80, CHR 0x85],
      [CHR 0xE2, CHR 0x80, CHR 0x86], [CHR 0xE2, CHR 0x80, CHR 0x87],
      [CHR 0xE2, CHR 0x80, CHR 0x88], [CHR 0xE2, CHR 0x80, CHR 0x89],
      [CHR 0xE2, CHR 0x80, CHR 0x8A],
      [CHR 0xE2, CHR 0x80, CHR 0xA8], [CHR 0xE2, CHR 0x80, CHR 0xA9],
      [CHR 0xE2, CHR 0x80, CHR 0xAF],
      [CHR 0xE2, CHR 0x81, CHR 0x9F],
      [CHR 0xE3, CHR 0x80, CHR 0x80],
      [CHR 0xEF, CHR 0xBB, CHR 0xBF]]"

text \<open>The rest of \<open>s\<close> after the first white-space character it starts with, if any.\<close>

fun strip_one :: "string list \<Rightarrow> string \<Rightarrow> string option" where
  "strip_one [] s = None"
| "strip_one (w # ws) s =
     (if prefix w s then Some (drop (length w) s) else strip_one ws s)"

lemma strip_one_shorter:
  "strip_one ws s = Some t \<Longrightarrow> [] \<notin> set ws \<Longrightarrow> length t < length s"
  by (induction ws) (auto split: if_splits simp: prefix_def)

lemma js_whitespace_nonempty: "[] \<notin> set js_whitespace"
  by (simp add: js_whitespace_def)

function trimStart :: "string \<Rightarrow> string" where
  "trimStart s = (case strip_one js_whitespace s of None \<Rightarrow> s | Some t \<Rightarrow> trimStart t)"
  by pat_completeness auto
termination
  by (relation "measure length") (auto dest: strip_one_shorter simp: js_whitespace_nonempty)

declare trimStart.simps [simp del]

definition is_digit :: "char \<Rightarrow> bool" where
  "is_digit c = (48 \<le> (of_char c :: nat) \<and> (of_char c :: nat) \<le> 57)"

definition digit_val :: "char \<Rightarrow> int" where
  "digit_val c = of_char c - 48"

text \<open>The value of a run of decimal digits, most significant first.\<close>

definition digits_val :: "string \<Rightarrow> int" where
  "digits_val ds = foldl (\<lambda>acc c. 10 * acc + digit_val c) 0 ds"

text \<open>
  The exponent part at the start of \<open>s\<close>: \<open>e\<close> or \<open>E\<close>, an optional sign and at least
  one digit. Without a digit there is no exponent part and the exponent is 0.
\<close>

definition exponent_part :: "string \<Rightarrow> int" where
  "exponent_part s =
     (case s of
        [] \<Rightarrow> 0
      | c # r \<Rightarrow>
          if c = CHR ''e'' \<or> c = CHR ''E'' then
            (case r of
               [] \<Rightarrow> 0
             | sg # r' \<Rightarrow>
                 if sg = CHR ''+'' \<or> sg = CHR ''-'' then
                   (let ds = takeWhile is_digit r'
                    in if ds = [] then 0
                       else if sg = CHR ''-'' then - digits_val ds
                       else digits_val ds)
                 else
                   (let ds = takeWhile is_digit r
                    in if ds = [] then 0 else digits_val ds))
          else 0)"

text \<open>
  The longest unsigned decimal literal at the start of \<open>s\<close> (\<open>Infinity\<close> apart), as a
  pair \<open>(m, e)\<close> standing for \<open>m * 10^e\<close>, or None when \<open>s\<close> starts with none.
\<close>

definition unsigned_decimal :: "string \<Rightarrow> (int \<times> int) option" where
  "unsigned_decimal s =
     (let ip = takeWhile is_digit s; r = dropWhile is_digit s
      in case r of
           c # r' \<Rightarrow>
             if c = CHR ''.'' then
               (let fp = takeWhile is_digit r'; r'' = dropWhile is_digit r'
                in if ip = [] \<and> fp = [] then None
                   else Some (digits_val (ip @ fp), exponent_part r'' - int (length fp)))
             else if ip = [] then None
             else Some (digits_val ip, exponent_part r)
         | [] \<Rightarrow> if ip = [] then None else Some (digits_val ip, 0))"

definition decimal_to_double :: "int \<times> int \<Rightarrow> js_number" where
  "decimal_to_double me =
     (case me of (m, e) \<Rightarrow>
        if 0 \<le> e then round_double (m * 10 ^ nat e) 1
        else round_double m (10 ^ nat (- e)))"

definition unsigned_literal :: "string \<Rightarrow> js_number" where
  "unsigned_literal s =
     (if prefix ''Infinity'' s then PosInfinity
      else case unsigned_decimal s of None \<Rightarrow> NaN | Some me \<Rightarrow> decimal_to_double me)"

fun js_negate :: "js_number \<Rightarrow> js_number" where
  "js_negate (Num a) = Num (- a)"
| "js_negate PosInfinity = NegInfinity"
| "js_negate NegInfinity = PosInfinity"
| "js_negate NaN = NaN"

definition parseFloat :: "string \<Rightarrow> js_number" where
  "parseFloat str =
     (case trimStart str of
        [] \<Rightarrow> NaN
      | c # r \<Rightarrow>
          if c = CHR ''-'' then js_negate (unsigned_literal r)
          else if c = CHR ''+'' then unsigned_literal r
          else unsigned_literal (c # r))"

text \<open>
  A number in a template literal. A chat id is an integer far below \<open>10^21\<close>, where the
  text of a number is its decimal digits, with a minus sign when negative.
\<close>

definition digit_char :: "nat \<Rightarrow> char" where
  "digit_char d = ''0123456789'' ! d"

fun decimal :: "nat \<Rightarrow> string" where
  "decimal n =
     (if n < 10 then [digit_char n]
      else decimal (n div 10) @ [digit_char (n mod 10)])"

declare decimal.simps [simp del]

definition Number_toString :: "int \<Rightarrow> string" where
  "Number_toString i = (if i < 0 then ''-'' @ decimal (nat (- i)) else decimal (nat i))"

definition repeat :: "string \<Rightarrow> nat \<Rightarrow> string" where
  "repeat s n = concat (replicate n s)"

section \<open>Configuration and data model\<close>

text \<open>The process environment read by \<open>config/index.js\<close>; an unset variable is None.\<close>

record env =
  BNB_EXPLORER :: "string option"
  SOLANA_EXPLORER :: "string option"
  NODE_ENV :: "string option"

text \<open>\<open>process.env.X || default\<close>: an unset or empty variable gives the default.\<close>

definition or_default :: "string option \<Rightarrow> string \<Rightarrow> string" where
  "or_default v d = (case v of None \<Rightarrow> d | Some u \<Rightarrow> if u = [] then d else u)"

definition scannerUrls_BNB :: "env \<Rightarrow> string" where
  "scannerUrls_BNB e = or_default (BNB_EXPLORER e) ''https://bscscan.com/tx/''"

definition scannerUrls_Solana :: "env \<Rightarrow> string" where
  "scannerUrls_Solana e = or_default (SOLANA_EXPLORER e) ''https://solscan.io/tx/''"

definition production :: "env \<Rightarrow> bool" where
  "production e = (NODE_ENV e = Some ''production'')"

record token_info =
  name :: string
  symbol :: string

text \<open>
  The group configuration built by \<open>finalizeSetup\<close>. \<open>tokenInfo\<close> and \<open>imageFileId\<close>
  may be undefined (None); \<open>chain\<close>, \<open>tokenAddress\<close> and \<open>emoji\<close> are strings, as the
  wizard has set all three before it reaches \<open>finalizeSetup\<close>; the two dates are
  milliseconds.
\<close>

record group_config =
  chain :: string
  tokenAddress :: string
  tokenInfo :: "token_info option"
  emoji :: string
  imageFileId :: "string option"
  isActive :: bool
  createdAt :: nat
  updatedAt :: nat

text \<open>The transaction object a monitor passes to its callback; every field is a string.\<close>

record tx_data =
  hash :: string
  tokenAmount :: string
  nativeAmount :: string
  usdAmount :: string
  buyer :: string

section \<open>The notification text (\<open>sendBuyNotification\<close>, the part before the send)\<close>

definition emojiCount :: "js_number \<Rightarrow> nat" where
  "emojiCount usdValue =
     (if js_less usdValue (Num 50) then 1
      else if js_less usdValue (Num 200) then 3
      else if js_less usdValue (Num 1000) then 5
      else 10)"

definition emojiString :: "group_config \<Rightarrow> tx_data \<Rightarrow> string" where
  "emojiString cfg tx = repeat (emoji cfg) (emojiCount (parseFloat (usdAmount tx)))"

definition explorerUrl :: "env \<Rightarrow> group_config \<Rightarrow> tx_data \<Rightarrow> string" where
  "explorerUrl e cfg tx =
     (if chain cfg = ''BNB'' then scannerUrls_BNB e @ hash tx
      else scannerUrls_Solana e @ hash tx)"

definition nativeCurrency :: "group_config \<Rightarrow> string" where
  "nativeCurrency cfg = (if chain cfg = ''BNB'' then ''BNB'' else ''SOL'')"

text \<open>\<open>groupConfig.tokenInfo || { name: 'Unknown Token', symbol: 'TOKEN' }\<close>\<close>

definition tokenInfo_or_default :: "group_config \<Rightarrow> token_info" where
  "tokenInfo_or_default cfg =
     (case tokenInfo cfg of
        Some ti \<Rightarrow> ti
      | None \<Rightarrow> \<lparr>name = ''Unknown Token'', symbol = ''TOKEN''\<rparr>)"

text \<open>The glyphs of the caption, as UTF-8, and the two characters a literal cannot hold.\<close>

definition glyph_arrows :: string where
  "glyph_arrows = [CHR 0xF0, CHR 0x9F, CHR 0x94, CHR 0x84]"

definition glyph_money_bag :: string where
  "glyph_money_bag = [CHR 0xF0, CHR 0x9F, CHR 0x92, CHR 0xB0]"

definition glyph_coin :: string where
  "glyph_coin = [CHR 0xF0, CHR 0x9F, CHR 0xAA, CHR 0x99]"

definition glyph_bust :: string where
  "glyph_bust = [CHR 0xF0, CHR 0x9F, CHR 0x91, CHR 0xA4]"

definition glyph_link :: string where
  "glyph_link = [CHR 0xF0, CHR 0x9F, CHR 0x94, CHR 0x97]"

definition NL :: string where
  "NL = [CHR 0x0A]"

definition DQ :: string where
  "DQ = [CHR 0x22]"

definition caption :: "env \<Rightarrow> group_config \<Rightarrow> tx_data \<Rightarrow> bool \<Rightarrow> string" where
  "caption e cfg tx isSample =
     (let ti = tokenInfo_or_default cfg
      in ''<b>NEW BUY'' @ (if isSample then '' (SAMPLE)'' else []) @ ''</b>'' @ NL
         @ emojiString cfg tx @ NL @ NL
         @ glyph_arrows @ '' <b>'' @ name ti @ '' ('' @ symbol ti @ '')</b>'' @ NL @ NL
         @ glyph_money_bag @ '' Amount: <b>'' @ tokenAmount tx @ '' '' @ symbol ti
           @ ''</b>'' @ NL
         @ glyph_coin @ '' Value: <b>'' @ nativeAmount tx @ '' '' @ nativeCurrency cfg
           @ ''</b> ($'' @ usdAmount tx @ '')'' @ NL
         @ glyph_bust @ '' Buyer: <code>'' @ buyer tx @ ''</code>'' @ NL @ NL
         @ glyph_link @ '' <a href='' @ DQ @ explorerUrl e cfg tx @ DQ
           @ ''>View Transaction</a>'')"

text \<open>
  The picture sent with the caption: the uploaded file when \<open>imageFileId\<close> is a non-empty
  string other than \<open>default\<close>, else the bundled \<open>assets/default.png\<close>.
\<close>

datatype photo = FileId string | DefaultImage

definition notification_photo :: "group_config \<Rightarrow> photo" where
  "notification_photo cfg =
     (case imageFileId cfg of
        None \<Rightarrow> DefaultImage
      | Some f \<Rightarrow> if f \<noteq> [] \<and> f \<noteq> ''default'' then FileId f else DefaultImage)"

section \<open>The running bot\<close>

text \<open>
  The state the functions of the bot share: the table \<open>activeListeners\<close> (an object, kept
  as an association list in insertion order), the interval timers of the runtime, the calls
  made to the Telegram API, the lines written by \<open>logger\<close> (message only, without the
  time stamp and the data object) and the in-memory \<open>db.groups\<close>.

  A listener object is a closure over its timer; it is kept in \<open>timers\<close> and the table
  holds its position there. \<open>interval\<close> says that the timer is armed, \<open>stops\<close> counts the
  calls of the listener's \<open>stop()\<close>.
\<close>

datatype log_line = INFO string | ERROR string

datatype monitor = BnbDex | SolanaDex | Simulator

record listener =
  monitor :: monitor
  groupId :: int
  groupConfig :: group_config
  interval :: bool
  stops :: nat

text \<open>
  A call of the Telegram API; the flag of the two photo calls says whether the call
  resolved (True) or was rejected (False). It is an input: the sink decides it.
\<close>

datatype api_call =
    SendPhoto int photo string bool
  | ReplyWithPhoto int photo string bool
  | Reply int string

record bot =
  activeListeners :: "(string \<times> nat) list"
  timers :: "listener list"
  telegram :: "api_call list"
  console :: "log_line list"
  groups :: "(int \<times> group_config) list"

definition logger_log :: "string \<Rightarrow> bot \<Rightarrow> bot" where
  "logger_log msg s = s\<lparr>console := console s @ [INFO msg]\<rparr>"

definition logger_error :: "string \<Rightarrow> bot \<Rightarrow> bot" where
  "logger_error msg s = s\<lparr>console := console s @ [ERROR msg]\<rparr>"

subsection \<open>\<open>sendBuyNotification\<close>\<close>

text \<open>
  The whole body is inside \<open>try\<close>: a rejected \<open>sendPhoto\<close> is caught and logged, and the
  function returns normally in both cases. \<open>ok\<close> is the outcome of the call.
\<close>

definition sendBuyNotification ::
  "env \<Rightarrow> int \<Rightarrow> group_config \<Rightarrow> tx_data \<Rightarrow> bool \<Rightarrow> bool \<Rightarrow> bot \<Rightarrow> bot" where
  "sendBuyNotification e gid cfg tx isSample ok s =
     (let s1 = logger_log (''Sending buy notification''
                             @ (if isSample then '' (sample)'' else [])) s;
          s2 = s1\<lparr>telegram := telegram s1
                  @ [SendPhoto gid (notification_photo cfg) (caption e cfg tx isSample) ok]\<rparr>
      in if ok then logger_log ''Buy notification sent successfully'' s2
         else logger_error ''Error sending buy notification'' s2)"

subsection \<open>The monitors of the bot and their timers\<close>

text \<open>
  \<open>monitorBnbDexSwaps\<close> and \<open>monitorSolanaDexSwaps\<close> first build objects of the ethers
  and Solana libraries; \<open>opens\<close> says that these constructors return rather than throw.
  The callback they are given is always the closure
  \<open>(txData) => sendBuyNotification(groupId, groupConfig, txData)\<close>, kept as the pair
  \<open>(gid, cfg)\<close>. The BNB monitor arms its timer outside production only.
\<close>

datatype thrown = LibraryError

definition monitorBnbDexSwaps ::
  "env \<Rightarrow> string \<Rightarrow> int \<times> group_config \<Rightarrow> bool \<Rightarrow> bot \<Rightarrow> thrown + nat \<times> bot" where
  "monitorBnbDexSwaps e tokenAddr cb opens s =
     (if \<not> opens then Inl LibraryError
      else let s1 = logger_log ''Starting BNB Chain DEX monitoring'' s
           in Inr (length (timers s1),
                   s1\<lparr>timers := timers s1
                        @ [\<lparr>monitor = BnbDex, groupId = fst cb, groupConfig = snd cb,
                            interval = (\<not> production e), stops = 0\<rparr>]\<rparr>))"

definition monitorSolanaDexSwaps ::
  "env \<Rightarrow> string \<Rightarrow> int \<times> group_config \<Rightarrow> bool \<Rightarrow> bot \<Rightarrow> thrown + nat \<times> bot" where
  "monitorSolanaDexSwaps e tokenAddr cb opens s =
     (if \<not> opens then Inl LibraryError
      else let s1 = logger_log ''Starting Solana DEX monitoring'' s
           in Inr (length (timers s1),
                   s1\<lparr>timers := timers s1
                        @ [\<lparr>monitor = SolanaDex, groupId = fst cb, groupConfig = snd cb,
                            interval = True, stops = 0\<rparr>]\<rparr>))"

text \<open>
  \<open>stop()\<close> of the listener at position \<open>h\<close>: \<open>clearInterval\<close> (for the BNB monitor,
  when the timer was set). It never throws.
\<close>

definition listener_stop :: "nat \<Rightarrow> bot \<Rightarrow> bot" where
  "listener_stop h s =
     (if h < length (timers s)
      then s\<lparr>timers := (timers s)[h := (timers s ! h)\<lparr>interval := False,
                                          stops := Suc (stops (timers s ! h))\<rparr>]\<rparr>
      else s)"

definition listenerId :: "int \<Rightarrow> string \<Rightarrow> string" where
  "listenerId gid tokenAddr = Number_toString gid @ ''_'' @ tokenAddr"

text \<open>
  The fallback of \<open>startBlockchainListener\<close>: a timer of its own, stored under the
  listener id with \<open>_sim\<close> appended, over whatever was stored there.
\<close>

definition simulateBuyTransactions :: "int \<Rightarrow> group_config \<Rightarrow> bot \<Rightarrow> bot" where
  "simulateBuyTransactions gid cfg s =
     (let s1 = logger_log ''Setting up transaction simulator'' s;
          h = length (timers s1);
          s2 = s1\<lparr>timers := timers s1
                  @ [\<lparr>monitor = Simulator, groupId = gid, groupConfig = cfg,
                      interval = True, stops = 0\<rparr>]\<rparr>
      in s2\<lparr>activeListeners :=
              AList.update (listenerId gid (tokenAddress cfg) @ ''_sim'') h
                (activeListeners s2)\<rparr>)"

subsection \<open>\<open>startBlockchainListener\<close>\<close>

text \<open>
  \<open>if (activeListeners[listenerId]) { activeListeners[listenerId].stop(); delete
  activeListeners[listenerId]; }\<close>
\<close>

definition stop_existing :: "string \<Rightarrow> bot \<Rightarrow> bot" where
  "stop_existing lid s =
     (case map_of (activeListeners s) lid of
        Some h \<Rightarrow>
          (let s' = listener_stop h s
           in s'\<lparr>activeListeners := AList.delete lid (activeListeners s')\<rparr>)
      | None \<Rightarrow> s)"

definition startBlockchainListener :: "env \<Rightarrow> int \<Rightarrow> group_config \<Rightarrow> bool \<Rightarrow> bot \<Rightarrow> bot" where
  "startBlockchainListener e gid cfg opens s =
     (let s1 = logger_log ''Starting blockchain listener'' s;
          lid = listenerId gid (tokenAddress cfg);
          s2 = stop_existing lid s1
      in case (if chain cfg = ''BNB''
               then monitorBnbDexSwaps e (tokenAddress cfg) (gid, cfg) opens s2
               else monitorSolanaDexSwaps e (tokenAddress cfg) (gid, cfg) opens s2) of
           Inr (h, s3) \<Rightarrow>
             logger_log ''Blockchain monitoring started successfully''
               (s3\<lparr>activeListeners := AList.update lid h (activeListeners s3)\<rparr>)
         | Inl err \<Rightarrow>
             (let s3 = logger_error ''Failed to start blockchain monitoring'' s2
              in if \<not> production e
                 then simulateBuyTransactions gid cfg
                        (logger_log ''Falling back to transaction simulation for testing'' s3)
                 else s3))"

subsection \<open>\<open>stopBlockchainListener\<close>\<close>

text \<open>
  One round of the \<open>forEach\<close> over the keys. \<open>activeListeners[key].stop()\<close> on a key that
  is no longer in the table throws a TypeError, which the \<open>catch\<close> logs.
\<close>

definition stop_key :: "string \<Rightarrow> string \<Rightarrow> bot \<Rightarrow> bot" where
  "stop_key pre key s =
     (if prefix pre key then
        (case map_of (activeListeners s) key of
           Some h \<Rightarrow>
             (let s' = listener_stop h s
              in s'\<lparr>activeListeners := AList.delete key (activeListeners s')\<rparr>)
         | None \<Rightarrow> logger_error ''Error stopping listener'' s)
      else s)"

definition stopBlockchainListener :: "int \<Rightarrow> bot \<Rightarrow> bot" where
  "stopBlockchainListener gid s =
     (let s1 = logger_log ''Stopping blockchain listeners for group'' s
      in fold (stop_key (Number_toString gid @ ''_'')) (map fst (activeListeners s1)) s1)"

subsection \<open>The timer callbacks\<close>

text \<open>
  What one firing of a timer gets from outside: whether the draws of \<open>Math.random\<close> let
  this firing report a purchase, the transaction made from them, and the outcome of the
  \<open>sendPhoto\<close> call it leads to.
\<close>

record tick =
  reports :: bool
  purchase :: tx_data
  delivered :: bool

definition db_getGroup :: "int \<Rightarrow> bot \<Rightarrow> group_config option" where
  "db_getGroup gid s = map_of (groups s) gid"

text \<open>
  The runtime calls the callback of timer \<open>h\<close> only while the timer is armed. The
  simulator first reads the group from the database and clears its own timer when the
  group is missing or inactive.
\<close>

definition interval_callback :: "env \<Rightarrow> nat \<Rightarrow> tick \<Rightarrow> bot \<Rightarrow> bot" where
  "interval_callback e h t s =
     (if h < length (timers s) \<and> interval (timers s ! h) then
        (let l = timers s ! h
         in case monitor l of
              Simulator \<Rightarrow>
                (if (case db_getGroup (groupId l) s of None \<Rightarrow> False | Some g \<Rightarrow> isActive g)
                 then if reports t
                      then sendBuyNotification e (groupId l) (groupConfig l) (purchase t)
                             False (delivered t) s
                      else s
                 else (logger_log ''Stopping transaction simulator - group inactive'' s)
                        \<lparr>timers := (timers s)[h := l\<lparr>interval := False\<rparr>]\<rparr>)
            | _ \<Rightarrow>
                (if reports t
                 then sendBuyNotification e (groupId l) (groupConfig l) (purchase t)
                        False (delivered t) s
                 else s))
      else s)"

subsection \<open>\<open>finalizeSetup\<close>\<close>

text \<open>The answers collected by the setup wizard.\<close>

record setup_data =
  sd_chain :: string
  sd_tokenAddress :: string
  sd_tokenInfo :: "token_info option"
  sd_emoji :: string
  sd_imageFileId :: string

definition db_saveGroup :: "int \<Rightarrow> group_config \<Rightarrow> bot \<Rightarrow> bot" where
  "db_saveGroup gid cfg s =
     logger_log (''Group '' @ Number_toString gid @ '' settings updated'')
       (s\<lparr>groups := AList.update gid cfg (groups s)\<rparr>)"

definition glyph_check :: string where
  "glyph_check = [CHR 0xE2, CHR 0x9C, CHR 0x85]"

definition glyph_magnifier :: string where
  "glyph_magnifier = [CHR 0xF0, CHR 0x9F, CHR 0x94, CHR 0x8D]"

definition glyph_bullet :: string where
  "glyph_bullet = [CHR 0xE2, CHR 0x80, CHR 0xA2]"

definition glyph_rocket :: string where
  "glyph_rocket = [CHR 0xF0, CHR 0x9F, CHR 0x9A, CHR 0x80]"

definition setup_caption :: "setup_data \<Rightarrow> token_info \<Rightarrow> string" where
  "setup_caption sd ti =
     glyph_check @ '' <b>Setup Complete!</b>'' @ NL @ NL
     @ glyph_magnifier @ '' <b>Tracking Configuration:</b>'' @ NL
     @ glyph_bullet @ '' Network: <b>'' @ sd_chain sd @ ''</b>'' @ NL
     @ glyph_bullet @ '' Token: <b>'' @ name ti @ '' ('' @ symbol ti @ '')</b>'' @ NL
     @ glyph_bullet @ '' Contract: <code>'' @ sd_tokenAddress sd @ ''</code>'' @ NL
     @ glyph_bullet @ '' Emoji: '' @ sd_emoji sd @ NL @ NL
     @ glyph_rocket @ '' The bot is now tracking all purchases for this token!''"

definition setup_failed :: "int \<Rightarrow> bot \<Rightarrow> bot" where
  "setup_failed chatId s =
     (let s1 = logger_error ''Error in setup finalization'' s
      in s1\<lparr>telegram := telegram s1
              @ [Reply chatId
                  ''An error occurred during setup finalization. Please try again with /setup.'']\<rparr>)"

text \<open>
  \<open>created\<close> and \<open>updated\<close> are the two readings of the clock; \<open>replied\<close> is the outcome
  of \<open>ctx.replyWithPhoto\<close> and \<open>opens\<close> that of the monitor's constructors. Reading
  \<open>setupData.tokenInfo.name\<close> of an undefined \<open>tokenInfo\<close> throws before the reply is sent.
\<close>

definition new_groupConfig :: "setup_data \<Rightarrow> nat \<Rightarrow> nat \<Rightarrow> group_config" where
  \<comment> \<open>the object literal \<open>groupConfig\<close> of \<open>finalizeSetup\<close>\<close>
  "new_groupConfig sd created updated =
     \<lparr>chain = sd_chain sd, tokenAddress = sd_tokenAddress sd,
      tokenInfo = sd_tokenInfo sd, emoji = sd_emoji sd,
      imageFileId = Some (sd_imageFileId sd), isActive = True,
      createdAt = created, updatedAt = updated\<rparr>"

definition finalizeSetup ::
  "env \<Rightarrow> int \<Rightarrow> setup_data \<Rightarrow> nat \<Rightarrow> nat \<Rightarrow> bool \<Rightarrow> bool \<Rightarrow> bot \<Rightarrow> bot" where
  "finalizeSetup e chatId sd created updated replied opens s =
     (let cfg = new_groupConfig sd created updated;
          s1 = db_saveGroup chatId cfg s;
          imageSource = (if sd_imageFileId sd = ''default'' then DefaultImage
                         else FileId (sd_imageFileId sd))
      in case sd_tokenInfo sd of
           None \<Rightarrow> setup_failed chatId s1
         | Some ti \<Rightarrow>
             (let s2 = s1\<lparr>telegram := telegram s1
                         @ [ReplyWithPhoto chatId imageSource (setup_caption sd ti) replied]\<rparr>
              in if replied
                 then logger_log ''Setup completed'' (startBlockchainListener e chatId cfg opens s2)
                 else setup_failed chatId s2))"

subsection \<open>Well-formed states\<close>

text \<open>
  The table holds listener objects, never a reference to nothing: every position it
  holds is the position of a timer that exists.
\<close>

definition handles_allocated :: "bot \<Rightarrow> bool" where
  "handles_allocated s = list_all (\<lambda>kv. snd kv < length (timers s)) (activeListeners s)"

text \<open>
  Timers are never re-armed and never removed: \<open>ts'\<close> comes after \<open>ts\<close> when it is at
  least as long and every timer of \<open>ts\<close> that is armed in \<open>ts'\<close> was armed in \<open>ts\<close>.
\<close>

definition winds_down :: "listener list \<Rightarrow> listener list \<Rightarrow> bool" where
  "winds_down ts ts' =
     (length ts \<le> length ts' \<and> (\<forall>h < length ts. interval (ts' ! h) \<longrightarrow> interval (ts ! h)))"

subsection \<open>What happens to the bot\<close>

text \<open>
  The events that reach the functions above, with what each gets from outside, and the
  bot after a sequence of them.
\<close>

datatype bot_event =
    SetupFinalized int setup_data nat nat bool bool
  | ListenerStarted int group_config bool
  | GroupStopped int
  | TimerFired nat tick

fun bot_step :: "env \<Rightarrow> bot_event \<Rightarrow> bot \<Rightarrow> bot" where
  "bot_step e (SetupFinalized chatId sd created updated replied opens) s =
     finalizeSetup e chatId sd created updated replied opens s"
| "bot_step e (ListenerStarted gid cfg opens) s = startBlockchainListener e gid cfg opens s"
| "bot_step e (GroupStopped gid) s = stopBlockchainListener gid s"
| "bot_step e (TimerFired h t) s = interval_callback e h t s"

definition bot_run :: "env \<Rightarrow> bot_event list \<Rightarrow> bot \<Rightarrow> bot" where
  "bot_run e evs s = fold (bot_step e) evs s"

section \<open>The polling monitors of \<open>blockchain-monitor.js\<close>\<close>

text \<open>
  Each monitor of this file keeps a flag \<open>running\<close> and a timer \<open>checkInterval\<close>, and
  \<open>stop()\<close> clears both. The callback of the BNB timer is an \<open>async\<close> function: it tests
  \<open>running\<close>, then waits for \<open>provider.getBlockNumber()\<close>, and goes on when the answer
  arrives, in a later turn of the event loop. \<open>awaiting\<close> counts the firings that are
  waiting there. \<open>history\<close> records, in order, every call of the monitor's callback and
  every return of \<open>stop()\<close>.
\<close>

datatype feed_event = Emitted tx_data | StopReturned

record polling_monitor =
  running :: bool
  checkInterval :: bool
  lastBlockNumber :: int
  awaiting :: nat
  history :: "feed_event list"
  monitor_console :: "log_line list"

datatype start_error = InvalidAddress | ProviderFailed | RpcFailed

text \<open>
  \<open>monitorBnbDexSwaps\<close>: the address is checked, the provider is built, the first block
  number is awaited (None: the request failed), the timer is set.
\<close>

definition bm_monitorBnbDexSwaps ::
  "bool \<Rightarrow> bool \<Rightarrow> int option \<Rightarrow> start_error + polling_monitor" where
  "bm_monitorBnbDexSwaps isAddress provider_ok firstBlock =
     (if \<not> isAddress then Inl InvalidAddress
      else if \<not> provider_ok then Inl ProviderFailed
      else case firstBlock of
             None \<Rightarrow> Inl RpcFailed
           | Some b \<Rightarrow>
               Inr \<lparr>running = True, checkInterval = True, lastBlockNumber = b, awaiting = 0,
                    history = [],
                    monitor_console = [INFO ''Starting BNB Chain DEX monitoring'']\<rparr>)"

text \<open>The timer fires: the callback runs up to its \<open>await\<close>.\<close>

definition bm_bnb_fire :: "polling_monitor \<Rightarrow> polling_monitor" where
  "bm_bnb_fire m =
     (if checkInterval m \<and> running m then m\<lparr>awaiting := Suc (awaiting m)\<rparr> else m)"

text \<open>
  The block number arrives for a waiting firing (None: the request failed, which the
  \<open>catch\<close> logs): with a newer block, a purchase is reported to the callback when the
  draw of \<open>Math.random\<close> says so.
\<close>

definition bm_bnb_resume ::
  "int option \<Rightarrow> bool \<Rightarrow> tx_data \<Rightarrow> polling_monitor \<Rightarrow> polling_monitor" where
  "bm_bnb_resume answer hit tx m =
     (if awaiting m = 0 then m
      else let m1 = m\<lparr>awaiting := awaiting m - 1\<rparr>
           in case answer of
                None \<Rightarrow>
                  m1\<lparr>monitor_console := monitor_console m1
                        @ [ERROR ''Error monitoring BNB Chain'']\<rparr>
              | Some currentBlock \<Rightarrow>
                  if lastBlockNumber m1 < currentBlock then
                    (let m2 = m1\<lparr>monitor_console := monitor_console m1
                                  @ [INFO ''Processing new blocks'']\<rparr>;
                         m3 = (if hit then m2\<lparr>history := history m2 @ [Emitted tx]\<rparr>
                               else m2)
                     in m3\<lparr>lastBlockNumber := currentBlock\<rparr>)
                  else m1)"

definition bm_bnb_stop :: "polling_monitor \<Rightarrow> polling_monitor" where
  "bm_bnb_stop m =
     m\<lparr>monitor_console := monitor_console m @ [INFO ''Stopping BNB Chain monitoring''],
       running := False, checkInterval := False,
       history := history m @ [StopReturned]\<rparr>"

text \<open>
  \<open>monitorSolanaDexSwaps\<close> of the same file: its timer callback does not wait for
  anything between the test of \<open>running\<close> and the call of the callback.
\<close>

definition bm_monitorSolanaDexSwaps :: "bool \<Rightarrow> start_error + polling_monitor" where
  "bm_monitorSolanaDexSwaps isAddress =
     (if \<not> isAddress then Inl InvalidAddress
      else Inr \<lparr>running = True, checkInterval = True, lastBlockNumber = 0, awaiting = 0,
                history = [],
                monitor_console = [INFO ''Starting Solana DEX monitoring'']\<rparr>)"

definition bm_solana_fire :: "bool \<Rightarrow> tx_data \<Rightarrow> polling_monitor \<Rightarrow> polling_monitor" where
  "bm_solana_fire hit tx m =
     (if checkInterval m \<and> running m \<and> hit
      then m\<lparr>history := history m @ [Emitted tx]\<rparr> else m)"

definition bm_solana_stop :: "polling_monitor \<Rightarrow> polling_monitor" where
  "bm_solana_stop m =
     m\<lparr>monitor_console := monitor_console m @ [INFO ''Stopping Solana monitoring''],
       running := False, checkInterval := False,
       history := history m @ [StopReturned]\<rparr>"

text \<open>What can happen to a monitor, and a run of such steps.\<close>

datatype bnb_step = Fire | Answer "int option" bool tx_data | Stop

fun bm_bnb_step :: "bnb_step \<Rightarrow> polling_monitor \<Rightarrow> polling_monitor" where
  "bm_bnb_step Fire m = bm_bnb_fire m"
| "bm_bnb_step (Answer a r tx) m = bm_bnb_resume a r tx m"
| "bm_bnb_step Stop m = bm_bnb_stop m"

datatype solana_step = SFire bool tx_data | SStop

fun bm_solana_step :: "solana_step \<Rightarrow> polling_monitor \<Rightarrow> polling_monitor" where
  "bm_solana_step (SFire r tx) m = bm_solana_fire r tx m"
| "bm_solana_step SStop m = bm_solana_stop m"

fun is_Emitted :: "feed_event \<Rightarrow> bool" where
  "is_Emitted (Emitted _) = True"
| "is_Emitted StopReturned = False"

text \<open>No purchase is reported after the first return of \<open>stop()\<close>.\<close>

definition silent_after_stop :: "feed_event list \<Rightarrow> bool" where
  "silent_after_stop h = (\<not> list_ex is_Emitted (dropWhile is_Emitted h))"

section \<open>Concrete inputs\<close>

definition env0 :: env where
  "env0 = \<lparr>BNB_EXPLORER = None, SOLANA_EXPLORER = None, NODE_ENV = None\<rparr>"

definition cfg0 :: group_config where
  "cfg0 = \<lparr>chain = ''BNB'', tokenAddress = ''TOKEN1'',
            tokenInfo = Some \<lparr>name = ''Token One'', symbol = ''ONE''\<rparr>, emoji = ''*'',
            imageFileId = Some ''default'', isActive = True, createdAt = 0, updatedAt = 0\<rparr>"

definition tx_usd :: "string \<Rightarrow> tx_data" where
  "tx_usd usd = \<lparr>hash = ''0xabc'', tokenAmount = ''100'', nativeAmount = ''0.01'',
                  usdAmount = usd, buyer = ''0xdead''\<rparr>"

definition bot0 :: bot where
  "bot0 = \<lparr>activeListeners = [], timers = [], telegram = [], console = [], groups = []\<rparr>"

definition cfg_no_tokenInfo :: group_config where
  "cfg_no_tokenInfo = cfg0\<lparr>tokenInfo := None\<rparr>"

definition tick_failing :: tick where
  "tick_failing = \<lparr>reports = True, purchase = tx_usd ''75.00'', delivered = False\<rparr>"

definition tick_ok :: tick where
  "tick_ok = \<lparr>reports = True, purchase = tx_usd ''1000.00'', delivered = True\<rparr>"

definition cfg0' :: group_config where
  "cfg0' = cfg0\<lparr>emoji := ''#'', chain := ''Solana''\<rparr>"

definition sd1 :: setup_data where
  "sd1 = \<lparr>sd_chain = ''BNB'', sd_tokenAddress = ''TOKEN1'',
           sd_tokenInfo = Some \<lparr>name = ''Token One'', symbol = ''ONE''\<rparr>, sd_emoji = ''*'',
           sd_imageFileId = ''default''\<rparr>"

definition sd2 :: setup_data where
  "sd2 = \<lparr>sd_chain = ''Solana'', sd_tokenAddress = ''TOKEN2'',
           sd_tokenInfo = Some \<lparr>name = ''Token Two'', symbol = ''TWO''\<rparr>, sd_emoji = ''#'',
           sd_imageFileId = ''file-17''\<rparr>"

text \<open>The bot after a start for \<open>cfg0\<close> in group 42, and after a second one for \<open>cfg0'\<close>.\<close>

definition bot1 :: bot where
  "bot1 = \<lparr>activeListeners = [(''42_TOKEN1'', 0)],
           timers = [\<lparr>monitor = BnbDex, groupId = 42, groupConfig = cfg0,
                      interval = True, stops = 0\<rparr>],
           telegram = [],
           console = [INFO ''Starting blockchain listener'',
                      INFO ''Starting BNB Chain DEX monitoring'',
                      INFO ''Blockchain monitoring started successfully''],
           groups = []\<rparr>"

definition bot2 :: bot where
  "bot2 = \<lparr>activeListeners = [(''42_TOKEN1'', 1)],
           timers = [\<lparr>monitor = BnbDex, groupId = 42, groupConfig = cfg0,
                      interval = False, stops = 1\<rparr>,
                     \<lparr>monitor = SolanaDex, groupId = 42, groupConfig = cfg0',
                      interval = True, stops = 0\<rparr>],
           telegram = [],
           console = [INFO ''Starting blockchain listener'',
                      INFO ''Starting BNB Chain DEX monitoring'',
                      INFO ''Blockchain monitoring started successfully'',
                      INFO ''Starting blockchain listener'',
                      INFO ''Starting Solana DEX monitoring'',
                      INFO ''Blockchain monitoring started successfully''],
           groups = []\<rparr>"

text \<open>A bot with a listener in group 42 and one in group 7.\<close>

definition bot3 :: bot where
  "bot3 = \<lparr>activeListeners = [(''42_TOKEN1'', 0), (''7_TOKEN1'', 1)],
           timers = [\<lparr>monitor = BnbDex, groupId = 42, groupConfig = cfg0,
                      interval = True, stops = 0\<rparr>,
                     \<lparr>monitor = BnbDex, groupId = 7, groupConfig = cfg0,
                      interval = True, stops = 0\<rparr>],
           telegram = [], console = [], groups = []\<rparr>"

text \<open>A BNB monitor of \<open>blockchain-monitor.js\<close> started at block 100.\<close>

definition monitor100 :: polling_monitor where
  "monitor100 = \<lparr>running = True, checkInterval = True, lastBlockNumber = 100, awaiting = 0,
                  history = [],
                  monitor_console = [INFO ''Starting BNB Chain DEX monitoring'']\<rparr>"

section \<open>Evaluating \<open>parseFloat\<close> on concrete strings\<close>

lemma bit_length_0: "bit_length 0 = 0"
  by (simp add: bit_length.simps)

lemma bit_length_1: "bit_length 1 = 1"
  by (simp add: bit_length.simps)

lemma bit_length_numeral: "bit_length (numeral k) = 1 + bit_length (numeral k div 2)"
  by (subst bit_length.simps) simp

lemmas parseFloat_eval =
  parseFloat_def trimStart.simps js_whitespace_def unsigned_literal_def unsigned_decimal_def
  is_digit_def digits_val_def digit_val_def exponent_part_def decimal_to_double_def
  round_double_def ilog2_def round_half_even_def pow2_def
  bit_length_0 bit_length_1 bit_length_numeral Let_def

lemma parseFloat_49_99: "parseFloat ''49.99'' = Num (7035467042882847 / 140737488355328)"
  by (simp add: parseFloat_eval)

lemma parseFloat_50_00: "parseFloat ''50.00'' = Num 50"
  by (simp add: parseFloat_eval)

lemma parseFloat_75_00: "parseFloat ''75.00'' = Num 75"
  by (simp add: parseFloat_eval)

lemma parseFloat_199_99: "parseFloat ''199.99'' = Num (879565321755689 / 4398046511104)"
  by (simp add: parseFloat_eval)

lemma parseFloat_500: "parseFloat ''500'' = Num 500"
  by (simp add: parseFloat_eval)

lemma parseFloat_1000_00: "parseFloat ''1000.00'' = Num 1000"
  by (simp add: parseFloat_eval)

lemma parseFloat_999999: "parseFloat ''999999'' = Num 999999"
  by (simp add: parseFloat_eval)

lemma parseFloat_abc: "parseFloat ''abc'' = NaN"
  by (simp add: parseFloat_eval)

section \<open>The emoji tiers\<close>

lemma emojiCount_buckets:
  "(js_less v (Num 50) \<longrightarrow> emojiCount v = 1)
   \<and> (js_ge v (Num 50) \<and> js_less v (Num 200) \<longrightarrow> emojiCount v = 3)
   \<and> (js_ge v (Num 200) \<and> js_less v (Num 1000) \<longrightarrow> emojiCount v = 5)
   \<and> (js_ge v (Num 1000) \<longrightarrow> emojiCount v = 10)"
  by (cases v) (auto simp: emojiCount_def)

lemma emojiCount_le_10: "emojiCount v \<le> 10"
  by (simp add: emojiCount_def)

lemma emojiCount_NaN: "emojiCount NaN = 10"
  by (simp add: emojiCount_def)

text \<open>
  C2. The number of repetitions of the emoji is a function of the parsed USD amount
  alone, defined for every amount: below 50 it is 1, from 50 and below 200 it is 3, from
  200 and below 1000 it is 5, from 1000 on it is 10, and it is never more than 10. The
  strings 49.99, 50.00, 199.99, 1000.00 and 999999 give 1, 3, 3, 10 and 10.
\<close>

theorem emoji_tiering:
  "emojiString cfg tx = repeat (emoji cfg) (emojiCount (parseFloat (usdAmount tx)))
   \<and> (js_less (parseFloat (usdAmount tx)) (Num 50)
        \<longrightarrow> emojiString cfg tx = repeat (emoji cfg) 1)
   \<and> (js_ge (parseFloat (usdAmount tx)) (Num 50) \<and> js_less (parseFloat (usdAmount tx)) (Num 200)
        \<longrightarrow> emojiString cfg tx = repeat (emoji cfg) 3)
   \<and> (js_ge (parseFloat (usdAmount tx)) (Num 200) \<and> js_less (parseFloat (usdAmount tx)) (Num 1000)
        \<longrightarrow> emojiString cfg tx = repeat (emoji cfg) 5)
   \<and> (js_ge (parseFloat (usdAmount tx)) (Num 1000)
        \<longrightarrow> emojiString cfg tx = repeat (emoji cfg) 10)
   \<and> emojiCount (parseFloat (usdAmount tx)) \<le> 10
   \<and> emojiCount (parseFloat ''49.99'') = 1
   \<and> emojiCount (parseFloat ''50.00'') = 3
   \<and> emojiCount (parseFloat ''199.99'') = 3
   \<and> emojiCount (parseFloat ''1000.00'') = 10
   \<and> emojiCount (parseFloat ''999999'') = 10"
proof -
  have examples:
    "emojiCount (parseFloat ''49.99'') = 1" "emojiCount (parseFloat ''50.00'') = 3"
    "emojiCount (parseFloat ''199.99'') = 3" "emojiCount (parseFloat ''1000.00'') = 10"
    "emojiCount (parseFloat ''999999'') = 10"
    by (simp_all add: parseFloat_49_99 parseFloat_50_00 parseFloat_199_99 parseFloat_1000_00
          parseFloat_999999 emojiCount_def)
  show ?thesis
    using emojiCount_buckets [of "parseFloat (usdAmount tx)"] examples
    by (simp add: emojiString_def emojiCount_le_10)
qed

theorem emoji_tiering_witness:
  "js_less (parseFloat (usdAmount (tx_usd ''49.99''))) (Num 50)
   \<and> emojiString cfg0 (tx_usd ''49.99'') = ''*''
   \<and> js_ge (parseFloat (usdAmount (tx_usd ''75.00''))) (Num 50)
   \<and> js_less (parseFloat (usdAmount (tx_usd ''75.00''))) (Num 200)
   \<and> emojiString cfg0 (tx_usd ''75.00'') = ''***''
   \<and> js_ge (parseFloat (usdAmount (tx_usd ''500''))) (Num 200)
   \<and> js_less (parseFloat (usdAmount (tx_usd ''500''))) (Num 1000)
   \<and> emojiString cfg0 (tx_usd ''500'') = ''*****''
   \<and> js_ge (parseFloat (usdAmount (tx_usd ''999999''))) (Num 1000)
   \<and> emojiString cfg0 (tx_usd ''999999'') = ''**********''"
  using emoji_tiering [of cfg0 "tx_usd ''49.99''"] emoji_tiering [of cfg0 "tx_usd ''75.00''"]
    emoji_tiering [of cfg0 "tx_usd ''500''"] emoji_tiering [of cfg0 "tx_usd ''999999''"]
  by (simp add: tx_usd_def cfg0_def repeat_def parseFloat_49_99 parseFloat_75_00 parseFloat_500
        parseFloat_999999 emojiCount_def eval_nat_numeral)

text \<open>
  C10. When the USD amount of a purchase does not parse to a number, every comparison
  of the tier computation is false, the count is the last one, 10, and the notification
  that is sent carries the configured emoji ten times on its second line.
\<close>

theorem unparsable_amount_top_tier:
  assumes "parseFloat (usdAmount tx) = NaN"
  shows "\<not> js_less (parseFloat (usdAmount tx)) (Num 50)
         \<and> \<not> js_less (parseFloat (usdAmount tx)) (Num 200)
         \<and> \<not> js_less (parseFloat (usdAmount tx)) (Num 1000)
         \<and> emojiCount (parseFloat (usdAmount tx)) = 10
         \<and> emojiString cfg tx = repeat (emoji cfg) 10
         \<and> (\<exists>rest. caption e cfg tx isSample
               = ''<b>NEW BUY'' @ (if isSample then '' (SAMPLE)'' else []) @ ''</b>'' @ NL
                 @ repeat (emoji cfg) 10 @ NL @ NL @ rest)
         \<and> telegram (sendBuyNotification e gid cfg tx isSample ok s)
             = telegram s
               @ [SendPhoto gid (notification_photo cfg) (caption e cfg tx isSample) ok]"
proof -
  have count: "emojiCount (parseFloat (usdAmount tx)) = 10"
    using assms by (simp add: emojiCount_NaN)
  have str: "emojiString cfg tx = repeat (emoji cfg) 10"
    using count by (simp add: emojiString_def)
  have cap: "\<exists>rest. caption e cfg tx isSample
               = ''<b>NEW BUY'' @ (if isSample then '' (SAMPLE)'' else []) @ ''</b>'' @ NL
                 @ repeat (emoji cfg) 10 @ NL @ NL @ rest"
    unfolding caption_def Let_def str by (intro exI) (simp only: append_assoc)
  have sent: "telegram (sendBuyNotification e gid cfg tx isSample ok s)
             = telegram s
               @ [SendPhoto gid (notification_photo cfg) (caption e cfg tx isSample) ok]"
    by (simp add: sendBuyNotification_def logger_log_def logger_error_def Let_def)
  show ?thesis
    using assms count str cap sent by simp
qed

theorem unparsable_amount_top_tier_witness:
  "parseFloat (usdAmount (tx_usd ''abc'')) = NaN
   \<and> emojiCount (parseFloat (usdAmount (tx_usd ''abc''))) = 10
   \<and> emojiString cfg0 (tx_usd ''abc'') = ''**********''"
  using unparsable_amount_top_tier [of "tx_usd ''abc''" cfg0 env0 False 42 True bot0]
  by (simp add: tx_usd_def cfg0_def repeat_def parseFloat_abc eval_nat_numeral)

section \<open>The notification\<close>

lemma sendBuyNotification_effect:
  "sendBuyNotification e gid cfg tx isSample ok s
   = s\<lparr>telegram := telegram s
          @ [SendPhoto gid (notification_photo cfg) (caption e cfg tx isSample) ok],
        console := console s
          @ [INFO (''Sending buy notification'' @ (if isSample then '' (sample)'' else [])),
             if ok then INFO ''Buy notification sent successfully''
             else ERROR ''Error sending buy notification'']\<rparr>"
  by (simp add: sendBuyNotification_def logger_log_def logger_error_def Let_def)

lemma caption_default_token:
  "tokenInfo cfg = None \<Longrightarrow>
   caption e cfg tx isSample
   = caption e (cfg\<lparr>tokenInfo := Some \<lparr>name = ''Unknown Token'', symbol = ''TOKEN''\<rparr>\<rparr>)
       tx isSample"
  by (simp add: caption_def tokenInfo_or_default_def emojiString_def nativeCurrency_def
        explorerUrl_def)

text \<open>
  C3, as the code has it. The formatter does not fail when \<open>tokenInfo\<close> is absent: it
  renders with the name \<open>Unknown Token\<close> and the symbol \<open>TOKEN\<close>. For every event and
  configuration it yields a caption, and all that \<open>sendBuyNotification\<close> does around it is
  one log line before, the one \<open>sendPhoto\<close> call carrying that caption, and one log line
  after, an error line only when the call was rejected; the listener table, the timers
  with their configurations and the database are left as they were.
\<close>

theorem formatter_total_with_default_token:
  "(tokenInfo cfg = None \<longrightarrow>
      caption e cfg tx isSample
      = caption e (cfg\<lparr>tokenInfo := Some \<lparr>name = ''Unknown Token'', symbol = ''TOKEN''\<rparr>\<rparr>)
          tx isSample)
   \<and> sendBuyNotification e gid cfg tx isSample ok s
       = s\<lparr>telegram := telegram s
              @ [SendPhoto gid (notification_photo cfg) (caption e cfg tx isSample) ok],
            console := console s
              @ [INFO (''Sending buy notification'' @ (if isSample then '' (sample)'' else [])),
                 if ok then INFO ''Buy notification sent successfully''
                 else ERROR ''Error sending buy notification'']\<rparr>"
  using caption_default_token [of cfg e tx isSample]
    sendBuyNotification_effect [of e gid cfg tx isSample ok s]
  by simp

theorem formatter_total_with_default_token_witness:
  "tokenInfo cfg_no_tokenInfo = None
   \<and> caption env0 cfg_no_tokenInfo (tx_usd ''75.00'') False
       = caption env0
           (cfg_no_tokenInfo\<lparr>tokenInfo := Some \<lparr>name = ''Unknown Token'', symbol = ''TOKEN''\<rparr>\<rparr>)
           (tx_usd ''75.00'') False"
  using formatter_total_with_default_token
          [of cfg_no_tokenInfo env0 "tx_usd ''75.00''" False 42 True bot0]
  by (simp add: cfg_no_tokenInfo_def cfg0_def)

text \<open>
  The claim C3 itself fails: with \<open>tokenInfo\<close> absent the notification is rendered and
  sent, and no error is logged.
\<close>

theorem absent_tokenInfo_is_rendered:
  "tokenInfo cfg_no_tokenInfo = None
   \<and> sendBuyNotification env0 42 cfg_no_tokenInfo (tx_usd ''75.00'') False True bot0
       = bot0\<lparr>telegram :=
                [SendPhoto 42 DefaultImage
                   (''<b>NEW BUY</b>'' @ NL @ ''***'' @ NL @ NL
                    @ glyph_arrows @ '' <b>Unknown Token (TOKEN)</b>'' @ NL @ NL
                    @ glyph_money_bag @ '' Amount: <b>100 TOKEN</b>'' @ NL
                    @ glyph_coin @ '' Value: <b>0.01 BNB</b> ($75.00)'' @ NL
                    @ glyph_bust @ '' Buyer: <code>0xdead</code>'' @ NL @ NL
                    @ glyph_link @ '' <a href='' @ DQ @ ''https://bscscan.com/tx/0xabc'' @ DQ
                    @ ''>View Transaction</a>'')
                   True],
              console := [INFO ''Sending buy notification'',
                          INFO ''Buy notification sent successfully'']\<rparr>"
  by (simp add: sendBuyNotification_effect cfg_no_tokenInfo_def cfg0_def tx_usd_def bot0_def
        env0_def caption_def tokenInfo_or_default_def emojiString_def nativeCurrency_def
        explorerUrl_def scannerUrls_BNB_def or_default_def notification_photo_def
        parseFloat_75_00 emojiCount_def repeat_def eval_nat_numeral)

text \<open>
  C7. The photo and the text handed to \<open>sendPhoto\<close> are determined by the event, the
  configuration and the sample flag (with the explorer addresses the process was started
  with): two calls with these equal pass the same photo and the same text, whatever the
  two states of the bot and the two outcomes of the delivery are.
\<close>

theorem rendering_is_deterministic:
  "\<exists>p c. telegram (sendBuyNotification e gid cfg tx isSample ok s)
            = telegram s @ [SendPhoto gid p c ok]
        \<and> telegram (sendBuyNotification e gid cfg tx isSample ok' s')
            = telegram s' @ [SendPhoto gid p c ok']
        \<and> p = notification_photo cfg \<and> c = caption e cfg tx isSample"
  by (simp add: sendBuyNotification_effect)

text \<open>
  C8. The caption names the native currency, \<open>BNB\<close> when the configured chain is \<open>BNB\<close>
  and \<open>SOL\<close> otherwise, after the native amount, and ends with the link to the explorer,
  whose address is the explorer base of that chain followed by the transaction hash as it
  is. For the chain \<open>BNB\<close> and the hash \<open>0xabc\<close> it is the BNB base followed by \<open>0xabc\<close>.
\<close>

theorem caption_currency_and_explorer_url:
  "nativeCurrency cfg = (if chain cfg = ''BNB'' then ''BNB'' else ''SOL'')
   \<and> explorerUrl e cfg tx
       = (if chain cfg = ''BNB'' then scannerUrls_BNB e else scannerUrls_Solana e) @ hash tx
   \<and> (chain cfg = ''BNB'' \<and> hash tx = ''0xabc''
        \<longrightarrow> explorerUrl e cfg tx = scannerUrls_BNB e @ ''0xabc'')
   \<and> scannerUrls_BNB e = or_default (BNB_EXPLORER e) ''https://bscscan.com/tx/''
   \<and> scannerUrls_Solana e = or_default (SOLANA_EXPLORER e) ''https://solscan.io/tx/''
   \<and> (\<exists>pre mid. caption e cfg tx isSample
         = pre @ '' Value: <b>'' @ nativeAmount tx @ '' '' @ nativeCurrency cfg @ ''</b> ($''
           @ mid @ '' <a href='' @ DQ @ explorerUrl e cfg tx @ DQ
           @ ''>View Transaction</a>'')"
proof -
  have "\<exists>pre mid. caption e cfg tx isSample
         = pre @ '' Value: <b>'' @ nativeAmount tx @ '' '' @ nativeCurrency cfg @ ''</b> ($''
           @ mid @ '' <a href='' @ DQ @ explorerUrl e cfg tx @ DQ
           @ ''>View Transaction</a>''"
    unfolding caption_def Let_def
    apply (rule exI [of _ "''<b>NEW BUY'' @ (if isSample then '' (SAMPLE)'' else [])
             @ ''</b>'' @ NL @ emojiString cfg tx @ NL @ NL
             @ glyph_arrows @ '' <b>'' @ name (tokenInfo_or_default cfg) @ '' (''
             @ symbol (tokenInfo_or_default cfg) @ '')</b>'' @ NL @ NL
             @ glyph_money_bag @ '' Amount: <b>'' @ tokenAmount tx @ '' ''
             @ symbol (tokenInfo_or_default cfg) @ ''</b>'' @ NL @ glyph_coin"])
    apply (rule exI [of _ "usdAmount tx @ '')'' @ NL @ glyph_bust @ '' Buyer: <code>''
             @ buyer tx @ ''</code>'' @ NL @ NL @ glyph_link"])
    apply simp
    done
  then show ?thesis
    by (simp add: nativeCurrency_def explorerUrl_def scannerUrls_BNB_def
          scannerUrls_Solana_def)
qed

theorem caption_currency_and_explorer_url_witness:
  "chain cfg0 = ''BNB'' \<and> hash (tx_usd ''75.00'') = ''0xabc''
   \<and> nativeCurrency cfg0 = ''BNB''
   \<and> explorerUrl env0 cfg0 (tx_usd ''75.00'') = ''https://bscscan.com/tx/0xabc''"
  using caption_currency_and_explorer_url [of cfg0 env0 "tx_usd ''75.00''" False]
  by (simp add: cfg0_def tx_usd_def env0_def or_default_def)

section \<open>The listener table\<close>

lemma listenerId_42: "listenerId 42 tok = ''42_'' @ tok"
  by (simp add: listenerId_def Number_toString_def decimal.simps digit_char_def)

lemma listenerId_inject: "listenerId gid a = listenerId gid b \<longleftrightarrow> a = b"
  by (simp add: listenerId_def)

lemma length_timers_listener_stop: "length (timers (listener_stop h s)) = length (timers s)"
  by (simp add: listener_stop_def)

lemma activeListeners_listener_stop: "activeListeners (listener_stop h s) = activeListeners s"
  by (simp add: listener_stop_def)

lemma nth_timers_listener_stop:
  "i < length (timers s) \<Longrightarrow>
   timers (listener_stop h s) ! i
   = (if i = h then (timers s ! i)\<lparr>interval := False, stops := Suc (stops (timers s ! i))\<rparr>
      else timers s ! i)"
  by (simp add: listener_stop_def)

lemma filter_key_absent: "k \<notin> fst ` set al \<Longrightarrow> filter (\<lambda>kv. fst kv = k) al = []"
  by (induction al) auto

lemma filter_key_update_fresh:
  "k \<notin> fst ` set al \<Longrightarrow> filter (\<lambda>kv. fst kv = k) (AList.update k v al) = [(k, v)]"
  by (induction al) auto

lemma key_notin_delete: "k \<notin> fst ` set (AList.delete k al)"
  by (induction al) auto

lemma keys_delete_subset: "fst ` set (AList.delete k al) \<subseteq> fst ` set al"
  by (induction al) auto

lemma length_timers_stop_existing: "length (timers (stop_existing lid s)) = length (timers s)"
  by (simp add: stop_existing_def length_timers_listener_stop Let_def split: option.splits)

lemma key_notin_stop_existing: "lid \<notin> fst ` set (activeListeners (stop_existing lid s))"
proof (cases "map_of (activeListeners s) lid")
  case None
  then have "stop_existing lid s = s" by (simp add: stop_existing_def)
  with None show ?thesis by (simp add: map_of_eq_None_iff)
next
  case (Some h)
  then show ?thesis by (simp add: stop_existing_def Let_def key_notin_delete)
qed

lemma map_of_stop_existing_other:
  "k \<noteq> lid \<Longrightarrow> map_of (activeListeners (stop_existing lid s)) k = map_of (activeListeners s) k"
  by (simp add: stop_existing_def Let_def activeListeners_listener_stop delete_conv'
        split: option.splits)

lemma nth_timers_stop_existing:
  "i < length (timers s) \<Longrightarrow>
   timers (stop_existing lid s) ! i
   = (if map_of (activeListeners s) lid = Some i
      then (timers s ! i)\<lparr>interval := False, stops := Suc (stops (timers s ! i))\<rparr>
      else timers s ! i)"
  by (auto simp: stop_existing_def Let_def nth_timers_listener_stop split: option.splits)

text \<open>What \<open>startBlockchainListener\<close> leaves when the constructors of the monitor return.\<close>

lemma startBlockchainListener_opens:
  "startBlockchainListener e gid cfg True s
   = (let lid = listenerId gid (tokenAddress cfg);
          s2 = stop_existing lid (logger_log ''Starting blockchain listener'' s)
      in s2\<lparr>activeListeners := AList.update lid (length (timers s2)) (activeListeners s2),
            timers := timers s2
              @ [\<lparr>monitor = (if chain cfg = ''BNB'' then BnbDex else SolanaDex),
                  groupId = gid, groupConfig = cfg,
                  interval = (if chain cfg = ''BNB'' then \<not> production e else True),
                  stops = 0\<rparr>],
            console := console s2
              @ [INFO (if chain cfg = ''BNB'' then ''Starting BNB Chain DEX monitoring''
                       else ''Starting Solana DEX monitoring''),
                 INFO ''Blockchain monitoring started successfully'']\<rparr>)"
  by (simp add: startBlockchainListener_def stop_existing_def monitorBnbDexSwaps_def
        monitorSolanaDexSwaps_def logger_log_def Let_def)

lemma length_timers_start:
  "length (timers (startBlockchainListener e gid cfg True s)) = Suc (length (timers s))"
  by (simp add: startBlockchainListener_opens Let_def length_timers_stop_existing logger_log_def)

lemma map_of_start_key:
  "map_of (activeListeners (startBlockchainListener e gid cfg True s))
     (listenerId gid (tokenAddress cfg)) = Some (length (timers s))"
  by (simp add: startBlockchainListener_opens Let_def length_timers_stop_existing logger_log_def
        update_conv')

lemma map_of_start_other:
  "k \<noteq> listenerId gid (tokenAddress cfg) \<Longrightarrow>
   map_of (activeListeners (startBlockchainListener e gid cfg True s)) k
   = map_of (activeListeners s) k"
  by (simp add: startBlockchainListener_opens Let_def update_conv' map_of_stop_existing_other
        logger_log_def)

lemma one_entry_start:
  "filter (\<lambda>kv. fst kv = listenerId gid (tokenAddress cfg))
     (activeListeners (startBlockchainListener e gid cfg True s))
   = [(listenerId gid (tokenAddress cfg), length (timers s))]"
  by (simp add: startBlockchainListener_opens Let_def length_timers_stop_existing logger_log_def
        filter_key_update_fresh key_notin_stop_existing)

lemma nth_timers_start_new:
  "timers (startBlockchainListener e gid cfg True s) ! length (timers s)
   = \<lparr>monitor = (if chain cfg = ''BNB'' then BnbDex else SolanaDex),
      groupId = gid, groupConfig = cfg,
      interval = (if chain cfg = ''BNB'' then \<not> production e else True), stops = 0\<rparr>"
  by (simp add: startBlockchainListener_opens Let_def length_timers_stop_existing logger_log_def
        nth_append)

lemma nth_timers_start_old:
  "i < length (timers s) \<Longrightarrow>
   timers (startBlockchainListener e gid cfg True s) ! i
   = (if map_of (activeListeners s) (listenerId gid (tokenAddress cfg)) = Some i
      then (timers s ! i)\<lparr>interval := False, stops := Suc (stops (timers s ! i))\<rparr>
      else timers s ! i)"
  by (simp add: startBlockchainListener_opens Let_def length_timers_stop_existing logger_log_def
        nth_append nth_timers_stop_existing)

text \<open>
  When the constructors of the monitor throw, the old listener of the key has been
  stopped and removed all the same, and nothing is stored under the key (outside
  production the simulator is stored under the key followed by \<open>_sim\<close>).
\<close>

lemma failed_start_leaves_key_empty:
  "map_of (activeListeners (startBlockchainListener e gid cfg False s))
     (listenerId gid (tokenAddress cfg)) = None"
proof -
  let ?lid = "listenerId gid (tokenAddress cfg)"
  have gone: "map_of (activeListeners (stop_existing ?lid s')) ?lid = None" for s'
    using key_notin_stop_existing [of ?lid s'] by (simp add: map_of_eq_None_iff)
  show ?thesis
    by (simp add: startBlockchainListener_def monitorBnbDexSwaps_def
          monitorSolanaDexSwaps_def simulateBuyTransactions_def logger_log_def
          logger_error_def Let_def update_conv' gone)
qed

text \<open>
  C1. A start that opens its monitor while the table holds a listener under the same key
  (group id and token address) calls \<open>stop()\<close> on that listener and deletes its entry
  before it makes and stores its own, so the table then has exactly one entry for the
  key, the new listener. In particular, after two such starts for the same key, the
  first for \<open>cfgA\<close> and the second for \<open>cfgB\<close>, the one entry of the key is the listener
  made for \<open>cfgB\<close>, not stopped and with its timer as its monitor arms it, while the
  listener made for \<open>cfgA\<close> has had its one \<open>stop()\<close> and its timer is cleared.
\<close>

theorem start_replaces_listener_of_same_key:
  assumes "tokenAddress cfgA = tokenAddress cfgB"
  shows "map_of (activeListeners (startBlockchainListener e gid cfgA True s))
           (listenerId gid (tokenAddress cfgA)) = Some (length (timers s))
         \<and> groupConfig (timers (startBlockchainListener e gid cfgA True s) ! length (timers s))
             = cfgA
         \<and> stops (timers (startBlockchainListener e gid cfgA True s) ! length (timers s)) = 0
         \<and> filter (\<lambda>kv. fst kv = listenerId gid (tokenAddress cfgB))
              (activeListeners
                 (startBlockchainListener e gid cfgB True
                    (startBlockchainListener e gid cfgA True s)))
             = [(listenerId gid (tokenAddress cfgB), Suc (length (timers s)))]
         \<and> timers (startBlockchainListener e gid cfgB True
                      (startBlockchainListener e gid cfgA True s)) ! Suc (length (timers s))
             = \<lparr>monitor = (if chain cfgB = ''BNB'' then BnbDex else SolanaDex),
                groupId = gid, groupConfig = cfgB,
                interval = (if chain cfgB = ''BNB'' then \<not> production e else True),
                stops = 0\<rparr>
         \<and> stops (timers (startBlockchainListener e gid cfgB True
                             (startBlockchainListener e gid cfgA True s)) ! length (timers s))
             = 1
         \<and> \<not> interval (timers (startBlockchainListener e gid cfgB True
                                  (startBlockchainListener e gid cfgA True s))
                          ! length (timers s))
         \<and> (map_of (activeListeners s) (listenerId gid (tokenAddress cfgB)) = Some h
              \<and> h < length (timers s)
              \<longrightarrow> timers (startBlockchainListener e gid cfgB True s) ! h
                  = (timers s ! h)\<lparr>interval := False, stops := Suc (stops (timers s ! h))\<rparr>
                \<and> filter (\<lambda>kv. fst kv = listenerId gid (tokenAddress cfgB))
                     (activeListeners (startBlockchainListener e gid cfgB True s))
                    = [(listenerId gid (tokenAddress cfgB), length (timers s))]
                \<and> groupConfig (timers (startBlockchainListener e gid cfgB True s)
                                 ! length (timers s)) = cfgB)"
proof -
  let ?s1 = "startBlockchainListener e gid cfgA True s"
  let ?n = "length (timers s)"
  have len: "length (timers ?s1) = Suc ?n"
    by (rule length_timers_start)
  have key: "map_of (activeListeners ?s1) (listenerId gid (tokenAddress cfgB)) = Some ?n"
    using map_of_start_key [of e gid cfgA s] assms by simp
  have new1: "timers ?s1 ! ?n
      = \<lparr>monitor = (if chain cfgA = ''BNB'' then BnbDex else SolanaDex),
         groupId = gid, groupConfig = cfgA,
         interval = (if chain cfgA = ''BNB'' then \<not> production e else True), stops = 0\<rparr>"
    by (rule nth_timers_start_new)
  have old2: "timers (startBlockchainListener e gid cfgB True ?s1) ! ?n
      = (timers ?s1 ! ?n)\<lparr>interval := False, stops := Suc (stops (timers ?s1 ! ?n))\<rparr>"
    using nth_timers_start_old [of ?n ?s1 e gid cfgB] len key by simp
  have new2: "timers (startBlockchainListener e gid cfgB True ?s1) ! Suc ?n
      = \<lparr>monitor = (if chain cfgB = ''BNB'' then BnbDex else SolanaDex),
         groupId = gid, groupConfig = cfgB,
         interval = (if chain cfgB = ''BNB'' then \<not> production e else True), stops = 0\<rparr>"
    using nth_timers_start_new [of e gid cfgB ?s1] len by simp
  have one: "filter (\<lambda>kv. fst kv = listenerId gid (tokenAddress cfgB))
               (activeListeners (startBlockchainListener e gid cfgB True ?s1))
             = [(listenerId gid (tokenAddress cfgB), Suc ?n)]"
    using one_entry_start [of gid cfgB e ?s1] len by simp
  have general: "timers (startBlockchainListener e gid cfgB True s) ! h
                  = (timers s ! h)\<lparr>interval := False, stops := Suc (stops (timers s ! h))\<rparr>
                \<and> filter (\<lambda>kv. fst kv = listenerId gid (tokenAddress cfgB))
                     (activeListeners (startBlockchainListener e gid cfgB True s))
                    = [(listenerId gid (tokenAddress cfgB), length (timers s))]
                \<and> groupConfig (timers (startBlockchainListener e gid cfgB True s)
                                 ! length (timers s)) = cfgB"
    if "map_of (activeListeners s) (listenerId gid (tokenAddress cfgB)) = Some h"
      and "h < length (timers s)"
    using that nth_timers_start_old [of h s e gid cfgB] one_entry_start [of gid cfgB e s]
      nth_timers_start_new [of e gid cfgB s]
    by simp
  have scenario: "map_of (activeListeners ?s1) (listenerId gid (tokenAddress cfgA)) = Some ?n
         \<and> groupConfig (timers ?s1 ! ?n) = cfgA
         \<and> stops (timers ?s1 ! ?n) = 0
         \<and> filter (\<lambda>kv. fst kv = listenerId gid (tokenAddress cfgB))
              (activeListeners (startBlockchainListener e gid cfgB True ?s1))
             = [(listenerId gid (tokenAddress cfgB), Suc ?n)]
         \<and> timers (startBlockchainListener e gid cfgB True ?s1) ! Suc ?n
             = \<lparr>monitor = (if chain cfgB = ''BNB'' then BnbDex else SolanaDex),
                groupId = gid, groupConfig = cfgB,
                interval = (if chain cfgB = ''BNB'' then \<not> production e else True),
                stops = 0\<rparr>
         \<and> stops (timers (startBlockchainListener e gid cfgB True ?s1) ! ?n) = 1
         \<and> \<not> interval (timers (startBlockchainListener e gid cfgB True ?s1) ! ?n)"
    using map_of_start_key [of e gid cfgA s] new1 old2 new2 one by simp
  show ?thesis
    using scenario general by blast
qed

lemma start_cfg0_bot0: "startBlockchainListener env0 42 cfg0 True bot0 = bot1"
  by (simp add: startBlockchainListener_opens stop_existing_def logger_log_def bot0_def
        bot1_def listenerId_42 production_def env0_def cfg0_def Let_def)

lemma start_cfg0'_bot1: "startBlockchainListener env0 42 cfg0' True bot1 = bot2"
  by (simp add: startBlockchainListener_opens stop_existing_def listener_stop_def
        logger_log_def bot1_def bot2_def listenerId_42 cfg0'_def cfg0_def Let_def)

theorem start_replaces_listener_of_same_key_witness:
  "tokenAddress cfg0 = tokenAddress cfg0'
   \<and> activeListeners (startBlockchainListener env0 42 cfg0 True bot0) = [(''42_TOKEN1'', 0)]
   \<and> activeListeners
        (startBlockchainListener env0 42 cfg0' True
           (startBlockchainListener env0 42 cfg0 True bot0))
       = [(''42_TOKEN1'', 1)]
   \<and> timers (startBlockchainListener env0 42 cfg0' True
                (startBlockchainListener env0 42 cfg0 True bot0))
       = [\<lparr>monitor = BnbDex, groupId = 42, groupConfig = cfg0, interval = False, stops = 1\<rparr>,
          \<lparr>monitor = SolanaDex, groupId = 42, groupConfig = cfg0', interval = True,
           stops = 0\<rparr>]
   \<and> map_of (activeListeners bot1) (listenerId 42 (tokenAddress cfg0')) = Some 0
   \<and> 0 < length (timers bot1)
   \<and> timers (startBlockchainListener env0 42 cfg0' True bot1) ! 0
       = \<lparr>monitor = BnbDex, groupId = 42, groupConfig = cfg0, interval = False, stops = 1\<rparr>"
proof -
  have same: "tokenAddress cfg0 = tokenAddress cfg0'"
    by (simp add: cfg0'_def)
  have live: "map_of (activeListeners bot1) (listenerId 42 (tokenAddress cfg0')) = Some 0"
    "0 < length (timers bot1)"
    by (simp_all add: bot1_def listenerId_42 cfg0'_def cfg0_def)
  show ?thesis
    using start_replaces_listener_of_same_key [OF same, of env0 42 bot0 0]
      start_replaces_listener_of_same_key [OF same, of env0 42 bot1 0] live
    by (simp add: start_cfg0_bot0 start_cfg0'_bot1 same [symmetric])
       (simp add: bot1_def bot2_def)
qed

section \<open>Failure of the delivery\<close>

lemma interval_callback_reports:
  assumes "h < length (timers s)" and "interval (timers s ! h)"
    and "monitor (timers s ! h) = Simulator \<Longrightarrow>
           (case db_getGroup (groupId (timers s ! h)) s of None \<Rightarrow> False | Some g \<Rightarrow> isActive g)"
    and "reports t"
  shows "interval_callback e h t s
         = sendBuyNotification e (groupId (timers s ! h)) (groupConfig (timers s ! h))
             (purchase t) False (delivered t) s"
  using assms by (cases "monitor (timers s ! h)") (simp_all add: interval_callback_def Let_def)

text \<open>
  C4. A timer that is armed reports a purchase and the \<open>sendPhoto\<close> call is rejected:
  the rejection is caught and logged, the listener table and the timers are as before,
  so the watch is still registered and its timer still armed, and the next purchase the
  same timer reports is rendered and handed to \<open>sendPhoto\<close> again.
\<close>

theorem delivery_failure_is_isolated:
  assumes "h < length (timers s)" and "interval (timers s ! h)"
    and "monitor (timers s ! h) = Simulator \<Longrightarrow>
           (case db_getGroup (groupId (timers s ! h)) s of None \<Rightarrow> False | Some g \<Rightarrow> isActive g)"
    and "reports t1" and "\<not> delivered t1" and "reports t2"
  shows "activeListeners (interval_callback e h t1 s) = activeListeners s
         \<and> timers (interval_callback e h t1 s) = timers s
         \<and> groups (interval_callback e h t1 s) = groups s
         \<and> telegram (interval_callback e h t1 s)
             = telegram s
               @ [SendPhoto (groupId (timers s ! h)) (notification_photo (groupConfig (timers s ! h)))
                    (caption e (groupConfig (timers s ! h)) (purchase t1) False) False]
         \<and> console (interval_callback e h t1 s)
             = console s
               @ [INFO ''Sending buy notification'', ERROR ''Error sending buy notification'']
         \<and> telegram (interval_callback e h t2 (interval_callback e h t1 s))
             = telegram (interval_callback e h t1 s)
               @ [SendPhoto (groupId (timers s ! h)) (notification_photo (groupConfig (timers s ! h)))
                    (caption e (groupConfig (timers s ! h)) (purchase t2) False) (delivered t2)]
         \<and> activeListeners (interval_callback e h t2 (interval_callback e h t1 s))
             = activeListeners s
         \<and> timers (interval_callback e h t2 (interval_callback e h t1 s)) = timers s"
proof -
  let ?l = "timers s ! h"
  let ?s1 = "interval_callback e h t1 s"
  have first: "?s1 = sendBuyNotification e (groupId ?l) (groupConfig ?l) (purchase t1) False
                       (delivered t1) s"
    using assms(1-4) by (rule interval_callback_reports)
  have same: "timers ?s1 = timers s" "groups ?s1 = groups s"
    "activeListeners ?s1 = activeListeners s"
    by (simp_all add: first sendBuyNotification_effect)
  have "interval_callback e h t2 ?s1
        = sendBuyNotification e (groupId (timers ?s1 ! h)) (groupConfig (timers ?s1 ! h))
            (purchase t2) False (delivered t2) ?s1"
    using assms(1-3,6) by (intro interval_callback_reports) (simp_all add: same db_getGroup_def)
  then have second: "interval_callback e h t2 ?s1
        = sendBuyNotification e (groupId ?l) (groupConfig ?l) (purchase t2) False (delivered t2) ?s1"
    by (simp add: same)
  show ?thesis
    using assms(5) same by (simp add: second) (simp add: first sendBuyNotification_effect)
qed

theorem delivery_failure_is_isolated_witness:
  "0 < length (timers bot1) \<and> interval (timers bot1 ! 0) \<and> monitor (timers bot1 ! 0) = BnbDex
   \<and> reports tick_failing \<and> \<not> delivered tick_failing \<and> reports tick_ok
   \<and> activeListeners (interval_callback env0 0 tick_failing bot1) = [(''42_TOKEN1'', 0)]
   \<and> timers (interval_callback env0 0 tick_failing bot1) = timers bot1
   \<and> console (interval_callback env0 0 tick_failing bot1)
       = console bot1
         @ [INFO ''Sending buy notification'', ERROR ''Error sending buy notification'']
   \<and> telegram (interval_callback env0 0 tick_ok (interval_callback env0 0 tick_failing bot1))
       = [SendPhoto 42 DefaultImage (caption env0 cfg0 (tx_usd ''75.00'') False) False,
          SendPhoto 42 DefaultImage (caption env0 cfg0 (tx_usd ''1000.00'') False) True]"
proof -
  have h: "0 < length (timers bot1)" "interval (timers bot1 ! 0)"
    "monitor (timers bot1 ! 0) = Simulator \<Longrightarrow>
       (case db_getGroup (groupId (timers bot1 ! 0)) bot1 of None \<Rightarrow> False
        | Some g \<Rightarrow> isActive g)"
    "reports tick_failing" "\<not> delivered tick_failing" "reports tick_ok"
    by (simp_all add: bot1_def tick_failing_def tick_ok_def)
  have photo: "notification_photo cfg0 = DefaultImage"
    by (simp add: cfg0_def notification_photo_def)
  show ?thesis
    using delivery_failure_is_isolated [OF h, of env0]
    by (simp add: tick_failing_def tick_ok_def bot1_def photo)
qed

section \<open>Two tokens in one group\<close>

lemma handles_allocatedD:
  "handles_allocated s \<Longrightarrow> map_of (activeListeners s) k = Some h \<Longrightarrow> h < length (timers s)"
proof -
  assume "handles_allocated s" and "map_of (activeListeners s) k = Some h"
  then have "\<forall>kv \<in> set (activeListeners s). snd kv < length (timers s)"
    and "(k, h) \<in> set (activeListeners s)"
    by (simp_all add: handles_allocated_def list_all_iff map_of_SomeD)
  then show ?thesis by fastforce
qed

lemma finalizeSetup_completes:
  assumes "sd_tokenInfo sd = Some ti"
  obtains s' where
    "finalizeSetup e gid sd created updated True True s
     = logger_log ''Setup completed''
         (startBlockchainListener e gid (new_groupConfig sd created updated) True s')"
    and "timers s' = timers s" and "activeListeners s' = activeListeners s"
proof
  let ?s' = "(db_saveGroup gid (new_groupConfig sd created updated) s)
               \<lparr>telegram := telegram s
                  @ [ReplyWithPhoto gid
                       (if sd_imageFileId sd = ''default'' then DefaultImage
                        else FileId (sd_imageFileId sd))
                       (setup_caption sd ti) True]\<rparr>"
  show "finalizeSetup e gid sd created updated True True s
        = logger_log ''Setup completed''
            (startBlockchainListener e gid (new_groupConfig sd created updated) True ?s')"
    using assms by (simp add: finalizeSetup_def Let_def db_saveGroup_def logger_log_def)
  show "timers ?s' = timers s" "activeListeners ?s' = activeListeners s"
    by (simp_all add: db_saveGroup_def logger_log_def)
qed

lemma tokenAddress_new_groupConfig [simp]:
  "tokenAddress (new_groupConfig sd created updated) = sd_tokenAddress sd"
  by (simp add: new_groupConfig_def)

lemma chain_new_groupConfig [simp]:
  "chain (new_groupConfig sd created updated) = sd_chain sd"
  by (simp add: new_groupConfig_def)

lemma finalizeSetup_timers_length:
  assumes "sd_tokenInfo sd = Some ti"
  shows "length (timers (finalizeSetup e gid sd created updated True True s))
         = Suc (length (timers s))"
proof -
  obtain s' where s': "finalizeSetup e gid sd created updated True True s
     = logger_log ''Setup completed''
         (startBlockchainListener e gid (new_groupConfig sd created updated) True s')"
    "timers s' = timers s" "activeListeners s' = activeListeners s"
    using assms by (rule finalizeSetup_completes)
  show ?thesis
    using length_timers_start [of e gid "new_groupConfig sd created updated" s']
    by (simp add: s' logger_log_def)
qed

lemma finalizeSetup_key:
  assumes "sd_tokenInfo sd = Some ti"
  shows "map_of (activeListeners (finalizeSetup e gid sd created updated True True s))
           (listenerId gid (sd_tokenAddress sd)) = Some (length (timers s))"
proof -
  obtain s' where s': "finalizeSetup e gid sd created updated True True s
     = logger_log ''Setup completed''
         (startBlockchainListener e gid (new_groupConfig sd created updated) True s')"
    "timers s' = timers s" "activeListeners s' = activeListeners s"
    using assms by (rule finalizeSetup_completes)
  show ?thesis
    using map_of_start_key [of e gid "new_groupConfig sd created updated" s']
    by (simp add: s' logger_log_def)
qed

lemma finalizeSetup_other_key:
  assumes "sd_tokenInfo sd = Some ti" and "k \<noteq> listenerId gid (sd_tokenAddress sd)"
  shows "map_of (activeListeners (finalizeSetup e gid sd created updated True True s)) k
         = map_of (activeListeners s) k"
proof -
  obtain s' where s': "finalizeSetup e gid sd created updated True True s
     = logger_log ''Setup completed''
         (startBlockchainListener e gid (new_groupConfig sd created updated) True s')"
    "timers s' = timers s" "activeListeners s' = activeListeners s"
    using assms(1) by (rule finalizeSetup_completes)
  show ?thesis
    using map_of_start_other [of k gid "new_groupConfig sd created updated" e s'] assms(2)
    by (simp add: s' logger_log_def)
qed

lemma finalizeSetup_new_timer:
  assumes "sd_tokenInfo sd = Some ti"
  shows "timers (finalizeSetup e gid sd created updated True True s) ! length (timers s)
         = \<lparr>monitor = (if sd_chain sd = ''BNB'' then BnbDex else SolanaDex),
            groupId = gid, groupConfig = new_groupConfig sd created updated,
            interval = (if sd_chain sd = ''BNB'' then \<not> production e else True), stops = 0\<rparr>"
proof -
  obtain s' where s': "finalizeSetup e gid sd created updated True True s
     = logger_log ''Setup completed''
         (startBlockchainListener e gid (new_groupConfig sd created updated) True s')"
    "timers s' = timers s" "activeListeners s' = activeListeners s"
    using assms by (rule finalizeSetup_completes)
  show ?thesis
    using nth_timers_start_new [of e gid "new_groupConfig sd created updated" s']
    by (simp add: s' logger_log_def)
qed

lemma finalizeSetup_old_timer:
  assumes "sd_tokenInfo sd = Some ti" and "i < length (timers s)"
    and "map_of (activeListeners s) (listenerId gid (sd_tokenAddress sd)) \<noteq> Some i"
  shows "timers (finalizeSetup e gid sd created updated True True s) ! i = timers s ! i"
proof -
  obtain s' where s': "finalizeSetup e gid sd created updated True True s
     = logger_log ''Setup completed''
         (startBlockchainListener e gid (new_groupConfig sd created updated) True s')"
    "timers s' = timers s" "activeListeners s' = activeListeners s"
    using assms(1) by (rule finalizeSetup_completes)
  show ?thesis
    using nth_timers_start_old [of i s' e gid "new_groupConfig sd created updated"] assms(2,3)
    by (simp add: s' logger_log_def)
qed

text \<open>
  C9. A group completes the setup for a token address and later for a different one
  (each time the confirmation is sent and the monitor opens). The second start looks up
  only its own key, so the listener of the first token is not stopped: both keys are in
  the table, the first listener is exactly as its own start left it, with no \<open>stop()\<close>
  received, and a purchase reported by either timer, if armed, is sent to the group with
  the configuration of its own setup.
\<close>

theorem second_token_keeps_first_listener:
  fixes e gid sdA sdB cA uA cB uB s
  defines "s1 \<equiv> finalizeSetup e gid sdA cA uA True True s"
  defines "s2 \<equiv> finalizeSetup e gid sdB cB uB True True s1"
  defines "n \<equiv> length (timers s)"
  assumes "sd_tokenAddress sdA \<noteq> sd_tokenAddress sdB"
    and "sd_tokenInfo sdA = Some tiA" and "sd_tokenInfo sdB = Some tiB"
    and "handles_allocated s"
  shows "map_of (activeListeners s2) (listenerId gid (sd_tokenAddress sdA)) = Some n
         \<and> map_of (activeListeners s2) (listenerId gid (sd_tokenAddress sdB)) = Some (Suc n)
         \<and> timers s2 ! n = timers s1 ! n
         \<and> timers s2 ! n
             = \<lparr>monitor = (if sd_chain sdA = ''BNB'' then BnbDex else SolanaDex),
                groupId = gid, groupConfig = new_groupConfig sdA cA uA,
                interval = (if sd_chain sdA = ''BNB'' then \<not> production e else True),
                stops = 0\<rparr>
         \<and> timers s2 ! Suc n
             = \<lparr>monitor = (if sd_chain sdB = ''BNB'' then BnbDex else SolanaDex),
                groupId = gid, groupConfig = new_groupConfig sdB cB uB,
                interval = (if sd_chain sdB = ''BNB'' then \<not> production e else True),
                stops = 0\<rparr>
         \<and> (reports t \<and> interval (timers s2 ! n) \<longrightarrow>
               telegram (interval_callback e n t s2)
               = telegram s2
                 @ [SendPhoto gid (notification_photo (new_groupConfig sdA cA uA))
                      (caption e (new_groupConfig sdA cA uA) (purchase t) False) (delivered t)])
         \<and> (reports t \<and> interval (timers s2 ! Suc n) \<longrightarrow>
               telegram (interval_callback e (Suc n) t s2)
               = telegram s2
                 @ [SendPhoto gid (notification_photo (new_groupConfig sdB cB uB))
                      (caption e (new_groupConfig sdB cB uB) (purchase t) False) (delivered t)])"
proof -
  have len1: "length (timers s1) = Suc n"
    unfolding s1_def n_def using assms(5) by (rule finalizeSetup_timers_length)
  have len2: "length (timers s2) = Suc (Suc n)"
    unfolding s2_def using finalizeSetup_timers_length [OF assms(6)] len1 by simp
  have keyA1: "map_of (activeListeners s1) (listenerId gid (sd_tokenAddress sdA)) = Some n"
    unfolding s1_def n_def using assms(5) by (rule finalizeSetup_key)
  have differ: "listenerId gid (sd_tokenAddress sdB) \<noteq> listenerId gid (sd_tokenAddress sdA)"
    using assms(4) by (simp add: listenerId_inject)
  have keyA2: "map_of (activeListeners s2) (listenerId gid (sd_tokenAddress sdA)) = Some n"
    unfolding s2_def using finalizeSetup_other_key [OF assms(6) differ [symmetric]] keyA1
    by simp
  have keyB2: "map_of (activeListeners s2) (listenerId gid (sd_tokenAddress sdB)) = Some (Suc n)"
    unfolding s2_def using finalizeSetup_key [OF assms(6), of e gid cB uB s1] len1 by simp
  have keyB1: "map_of (activeListeners s1) (listenerId gid (sd_tokenAddress sdB)) \<noteq> Some n"
  proof -
    have "map_of (activeListeners s1) (listenerId gid (sd_tokenAddress sdB))
          = map_of (activeListeners s) (listenerId gid (sd_tokenAddress sdB))"
      unfolding s1_def using assms(5) differ by (rule finalizeSetup_other_key)
    moreover have "map_of (activeListeners s) (listenerId gid (sd_tokenAddress sdB)) \<noteq> Some n"
      using handles_allocatedD [OF assms(7)] unfolding n_def by fastforce
    ultimately show ?thesis by simp
  qed
  have tA1: "timers s1 ! n
      = \<lparr>monitor = (if sd_chain sdA = ''BNB'' then BnbDex else SolanaDex),
         groupId = gid, groupConfig = new_groupConfig sdA cA uA,
         interval = (if sd_chain sdA = ''BNB'' then \<not> production e else True), stops = 0\<rparr>"
    unfolding s1_def n_def using assms(5) by (rule finalizeSetup_new_timer)
  have tA2: "timers s2 ! n = timers s1 ! n"
    unfolding s2_def using finalizeSetup_old_timer [OF assms(6) _ keyB1] len1 by simp
  have tB2: "timers s2 ! Suc n
      = \<lparr>monitor = (if sd_chain sdB = ''BNB'' then BnbDex else SolanaDex),
         groupId = gid, groupConfig = new_groupConfig sdB cB uB,
         interval = (if sd_chain sdB = ''BNB'' then \<not> production e else True), stops = 0\<rparr>"
    unfolding s2_def using finalizeSetup_new_timer [OF assms(6), of e gid cB uB s1] len1
    by simp
  have fireA: "telegram (interval_callback e n t s2)
               = telegram s2
                 @ [SendPhoto gid (notification_photo (new_groupConfig sdA cA uA))
                      (caption e (new_groupConfig sdA cA uA) (purchase t) False) (delivered t)]"
    if "reports t" "interval (timers s2 ! n)"
  proof -
    have "interval_callback e n t s2
          = sendBuyNotification e (groupId (timers s2 ! n)) (groupConfig (timers s2 ! n))
              (purchase t) False (delivered t) s2"
      using that len2 by (intro interval_callback_reports) (simp_all add: tA2 tA1 split: if_splits)
    then show ?thesis
      by (simp add: tA2 tA1 sendBuyNotification_effect)
  qed
  have fireB: "telegram (interval_callback e (Suc n) t s2)
               = telegram s2
                 @ [SendPhoto gid (notification_photo (new_groupConfig sdB cB uB))
                      (caption e (new_groupConfig sdB cB uB) (purchase t) False) (delivered t)]"
    if "reports t" "interval (timers s2 ! Suc n)"
  proof -
    have "interval_callback e (Suc n) t s2
          = sendBuyNotification e (groupId (timers s2 ! Suc n)) (groupConfig (timers s2 ! Suc n))
              (purchase t) False (delivered t) s2"
      using that len2 by (intro interval_callback_reports) (simp_all add: tB2 split: if_splits)
    then show ?thesis
      by (simp add: tB2 sendBuyNotification_effect)
  qed
  show ?thesis
    using keyA2 keyB2 tA2 tA1 tB2 fireA fireB by simp
qed

lemma handles_allocated_bot0: "handles_allocated bot0"
  by (simp add: handles_allocated_def bot0_def)

lemma two_setups_bot0:
  "activeListeners (finalizeSetup env0 42 sd2 30 40 True True
                      (finalizeSetup env0 42 sd1 10 20 True True bot0))
   = [(''42_TOKEN1'', 0), (''42_TOKEN2'', 1)]"
  "map stops (timers (finalizeSetup env0 42 sd2 30 40 True True
                        (finalizeSetup env0 42 sd1 10 20 True True bot0))) = [0, 0]"
  "map interval (timers (finalizeSetup env0 42 sd2 30 40 True True
                           (finalizeSetup env0 42 sd1 10 20 True True bot0))) = [True, True]"
  by (simp_all add: finalizeSetup_def db_saveGroup_def logger_log_def
        startBlockchainListener_opens stop_existing_def listenerId_42 new_groupConfig_def
        sd1_def sd2_def bot0_def env0_def production_def Let_def)

theorem second_token_keeps_first_listener_witness:
  "sd_tokenAddress sd1 \<noteq> sd_tokenAddress sd2
   \<and> sd_tokenInfo sd1 = Some \<lparr>name = ''Token One'', symbol = ''ONE''\<rparr>
   \<and> sd_tokenInfo sd2 = Some \<lparr>name = ''Token Two'', symbol = ''TWO''\<rparr>
   \<and> handles_allocated bot0
   \<and> reports tick_ok
   \<and> activeListeners (finalizeSetup env0 42 sd2 30 40 True True
                         (finalizeSetup env0 42 sd1 10 20 True True bot0))
       = [(''42_TOKEN1'', 0), (''42_TOKEN2'', 1)]
   \<and> map stops (timers (finalizeSetup env0 42 sd2 30 40 True True
                           (finalizeSetup env0 42 sd1 10 20 True True bot0))) = [0, 0]
   \<and> telegram (interval_callback env0 0 tick_ok
                  (finalizeSetup env0 42 sd2 30 40 True True
                     (finalizeSetup env0 42 sd1 10 20 True True bot0)))
       = telegram (finalizeSetup env0 42 sd2 30 40 True True
                     (finalizeSetup env0 42 sd1 10 20 True True bot0))
         @ [SendPhoto 42 DefaultImage
              (caption env0 (new_groupConfig sd1 10 20) (tx_usd ''1000.00'') False) True]"
proof -
  have h: "sd_tokenAddress sd1 \<noteq> sd_tokenAddress sd2"
    "sd_tokenInfo sd1 = Some \<lparr>name = ''Token One'', symbol = ''ONE''\<rparr>"
    "sd_tokenInfo sd2 = Some \<lparr>name = ''Token Two'', symbol = ''TWO''\<rparr>"
    by (simp_all add: sd1_def sd2_def)
  have photo: "notification_photo (new_groupConfig sd1 10 20) = DefaultImage"
    by (simp add: notification_photo_def new_groupConfig_def sd1_def)
  have armed: "sd_chain sd1 = ''BNB''" "\<not> production env0"
    by (simp_all add: sd1_def production_def env0_def)
  have first: "length (timers bot0) = 0"
    by (simp add: bot0_def)
  note r = second_token_keeps_first_listener
            [where e = env0 and gid = 42 and cA = 10 and uA = 20 and cB = 30 and uB = 40
               and t = tick_ok, OF h handles_allocated_bot0]
  note timer = r [THEN conjunct2, THEN conjunct2, THEN conjunct2, THEN conjunct1]
  note fires = r [THEN conjunct2, THEN conjunct2, THEN conjunct2, THEN conjunct2,
                  THEN conjunct2, THEN conjunct1]
  have "interval (timers (finalizeSetup env0 42 sd2 30 40 True True
                            (finalizeSetup env0 42 sd1 10 20 True True bot0))
                    ! length (timers bot0))"
    by (simp add: timer armed)
  then have "telegram (interval_callback env0 (length (timers bot0)) tick_ok
                  (finalizeSetup env0 42 sd2 30 40 True True
                     (finalizeSetup env0 42 sd1 10 20 True True bot0)))
       = telegram (finalizeSetup env0 42 sd2 30 40 True True
                     (finalizeSetup env0 42 sd1 10 20 True True bot0))
         @ [SendPhoto 42 DefaultImage
              (caption env0 (new_groupConfig sd1 10 20) (purchase tick_ok) False)
              (delivered tick_ok)]"
    using fires by (simp add: photo tick_ok_def)
  then show ?thesis
    by (simp add: first h handles_allocated_bot0 two_setups_bot0 tick_ok_def)
qed

section \<open>Stopping the listeners of a group\<close>

lemma keys_stop_key_subset:
  "fst ` set (activeListeners (stop_key pre k s)) \<subseteq> fst ` set (activeListeners s)"
  using keys_delete_subset [of k "activeListeners s"]
  by (auto simp: stop_key_def Let_def activeListeners_listener_stop logger_error_def
        split: option.splits)

lemma key_gone_stop_key:
  assumes "prefix pre k"
  shows "k \<notin> fst ` set (activeListeners (stop_key pre k s))"
proof (cases "map_of (activeListeners s) k")
  case None
  then have "activeListeners (stop_key pre k s) = activeListeners s"
    using assms by (simp add: stop_key_def logger_error_def)
  with None show ?thesis by (simp add: map_of_eq_None_iff)
next
  case (Some h)
  then show ?thesis
    using assms by (simp add: stop_key_def Let_def key_notin_delete)
qed

lemma keys_fold_stop_key_subset:
  "fst ` set (activeListeners (fold (stop_key pre) ks s)) \<subseteq> fst ` set (activeListeners s)"
proof (induction ks arbitrary: s)
  case Nil
  show ?case by simp
next
  case (Cons k ks)
  have "fst ` set (activeListeners (fold (stop_key pre) ks (stop_key pre k s)))
        \<subseteq> fst ` set (activeListeners (stop_key pre k s))"
    by (rule Cons.IH)
  also have "\<dots> \<subseteq> fst ` set (activeListeners s)"
    by (rule keys_stop_key_subset)
  finally show ?case by simp
qed

lemma fold_stop_key_removes:
  "k \<in> set ks \<Longrightarrow> prefix pre k \<Longrightarrow>
   k \<notin> fst ` set (activeListeners (fold (stop_key pre) ks s))"
proof (induction ks arbitrary: s)
  case Nil
  then show ?case by simp
next
  case (Cons a ks)
  show ?case
  proof (cases "k \<in> set ks")
    case True
    then show ?thesis using Cons.IH [OF True Cons.prems(2)] by simp
  next
    case False
    with Cons.prems(1) have "a = k" by simp
    then have "k \<notin> fst ` set (activeListeners (stop_key pre a s))"
      using key_gone_stop_key [OF Cons.prems(2)] by simp
    then show ?thesis
      using keys_fold_stop_key_subset [of pre ks "stop_key pre a s"] by auto
  qed
qed

lemma fold_stop_key_noop:
  "\<forall>k \<in> set ks. \<not> prefix pre k \<Longrightarrow> fold (stop_key pre) ks s = s"
  by (induction ks arbitrary: s) (simp_all add: stop_key_def)

lemma stopBlockchainListener_clears:
  assumes "key \<in> fst ` set (activeListeners (stopBlockchainListener gid s))"
  shows "\<not> prefix (Number_toString gid @ ''_'') key"
proof
  let ?s1 = "logger_log ''Stopping blockchain listeners for group'' s"
  let ?pre = "Number_toString gid @ ''_''"
  assume pre: "prefix ?pre key"
  have result: "stopBlockchainListener gid s = fold (stop_key ?pre) (map fst (activeListeners ?s1)) ?s1"
    by (simp add: stopBlockchainListener_def Let_def)
  have "key \<in> fst ` set (activeListeners ?s1)"
    using assms keys_fold_stop_key_subset [of ?pre "map fst (activeListeners ?s1)" ?s1]
    unfolding result by blast
  then have "key \<in> set (map fst (activeListeners ?s1))"
    by simp
  then have "key \<notin> fst ` set (activeListeners (stopBlockchainListener gid s))"
    unfolding result using pre by (rule fold_stop_key_removes)
  with assms show False by simp
qed

lemma stopBlockchainListener_noop:
  assumes "\<forall>key \<in> fst ` set (activeListeners s). \<not> prefix (Number_toString gid @ ''_'') key"
  shows "stopBlockchainListener gid s = logger_log ''Stopping blockchain listeners for group'' s"
proof -
  have "\<forall>k \<in> set (map fst (activeListeners
            (logger_log ''Stopping blockchain listeners for group'' s))).
          \<not> prefix (Number_toString gid @ ''_'') k"
    using assms by (simp add: logger_log_def)
  then show ?thesis
    by (simp add: stopBlockchainListener_def Let_def fold_stop_key_noop)
qed

text \<open>
  C5. \<open>stopBlockchainListener\<close> has no failing outcome, whatever the table holds. After
  it the table has no key that starts with the group id and an underscore, so no entry
  for any token address of the group. When the table has no such key to begin with, the
  call only writes its log line; a second call after a first one is therefore such a
  no-op.
\<close>

theorem stop_is_idempotent:
  "(\<forall>key \<in> fst ` set (activeListeners (stopBlockchainListener gid s)).
      \<not> prefix (Number_toString gid @ ''_'') key)
   \<and> (\<forall>tokenAddr. map_of (activeListeners (stopBlockchainListener gid s))
                      (listenerId gid tokenAddr) = None)
   \<and> ((\<forall>key \<in> fst ` set (activeListeners s). \<not> prefix (Number_toString gid @ ''_'') key)
        \<longrightarrow> stopBlockchainListener gid s
            = logger_log ''Stopping blockchain listeners for group'' s)
   \<and> stopBlockchainListener gid (stopBlockchainListener gid s)
       = logger_log ''Stopping blockchain listeners for group'' (stopBlockchainListener gid s)"
proof -
  have clears: "\<forall>key \<in> fst ` set (activeListeners (stopBlockchainListener gid s)).
                  \<not> prefix (Number_toString gid @ ''_'') key"
    using stopBlockchainListener_clears by blast
  have none: "map_of (activeListeners (stopBlockchainListener gid s)) (listenerId gid tokenAddr)
              = None" for tokenAddr
  proof -
    have "prefix (Number_toString gid @ ''_'') (listenerId gid tokenAddr)"
      by (simp add: listenerId_def)
    then have "listenerId gid tokenAddr
               \<notin> fst ` set (activeListeners (stopBlockchainListener gid s))"
      using clears by blast
    then show ?thesis by (simp add: map_of_eq_None_iff)
  qed
  show ?thesis
    using clears none stopBlockchainListener_noop [of s gid]
      stopBlockchainListener_noop [OF clears]
    by blast
qed

lemma Number_toString_examples:
  "Number_toString 42 = ''42''" "Number_toString 7 = ''7''" "Number_toString 99 = ''99''"
  by (simp_all add: Number_toString_def decimal.simps digit_char_def)

lemma stop_42_bot3:
  "stopBlockchainListener 42 bot3
   = \<lparr>activeListeners = [(''7_TOKEN1'', 1)],
      timers = [\<lparr>monitor = BnbDex, groupId = 42, groupConfig = cfg0,
                 interval = False, stops = 1\<rparr>,
                \<lparr>monitor = BnbDex, groupId = 7, groupConfig = cfg0,
                 interval = True, stops = 0\<rparr>],
      telegram = [],
      console = [INFO ''Stopping blockchain listeners for group''],
      groups = []\<rparr>"
  by (simp add: stopBlockchainListener_def stop_key_def listener_stop_def logger_log_def
        Number_toString_examples bot3_def Let_def)

theorem stop_is_idempotent_witness:
  "activeListeners (stopBlockchainListener 42 bot3) = [(''7_TOKEN1'', 1)]
   \<and> \<not> prefix (Number_toString 42 @ ''_'') ''7_TOKEN1''
   \<and> map_of (activeListeners (stopBlockchainListener 42 bot3)) (listenerId 42 ''TOKEN1'') = None
   \<and> activeListeners bot3 = [(''42_TOKEN1'', 0), (''7_TOKEN1'', 1)]
   \<and> \<not> prefix (Number_toString 99 @ ''_'') ''42_TOKEN1''
   \<and> \<not> prefix (Number_toString 99 @ ''_'') ''7_TOKEN1''
   \<and> stopBlockchainListener 99 bot3
       = logger_log ''Stopping blockchain listeners for group'' bot3
   \<and> stopBlockchainListener 42 (stopBlockchainListener 42 bot3)
       = logger_log ''Stopping blockchain listeners for group''
           (stopBlockchainListener 42 bot3)"
proof -
  have keys: "activeListeners bot3 = [(''42_TOKEN1'', 0), (''7_TOKEN1'', 1)]"
    by (simp add: bot3_def)
  show ?thesis
    using stop_is_idempotent [of 42 bot3] stop_is_idempotent [of 99 bot3]
    by (simp add: keys Number_toString_examples) (simp add: stop_42_bot3)
qed

section \<open>What every run of the bot preserves\<close>

lemma winds_down_refl: "winds_down ts ts"
  by (simp add: winds_down_def)

lemma winds_down_trans: "winds_down a b \<Longrightarrow> winds_down b c \<Longrightarrow> winds_down a c"
  by (fastforce simp: winds_down_def)

lemma winds_down_append: "winds_down ts (ts @ new)"
  by (simp add: winds_down_def nth_append)

lemma winds_down_clear:
  "winds_down ts (ts[h := (ts ! h)\<lparr>interval := False, stops := n\<rparr>])"
  by (cases "h < length ts") (auto simp: winds_down_def nth_list_update)

lemma winds_down_clear':
  "winds_down ts (ts[h := (ts ! h)\<lparr>interval := False\<rparr>])"
  by (cases "h < length ts") (auto simp: winds_down_def nth_list_update)

lemma winds_down_listener_stop: "winds_down (timers s) (timers (listener_stop h s))"
  by (simp add: listener_stop_def winds_down_clear winds_down_refl)

lemma winds_down_stop_existing: "winds_down (timers s) (timers (stop_existing lid s))"
  by (simp add: stop_existing_def Let_def winds_down_listener_stop winds_down_refl
        split: option.splits)

lemma winds_down_sendBuyNotification:
  "winds_down (timers s) (timers (sendBuyNotification e gid cfg tx isSample ok s))"
  by (simp add: sendBuyNotification_effect winds_down_refl)

lemma winds_down_simulateBuyTransactions:
  "winds_down (timers s) (timers (simulateBuyTransactions gid cfg s))"
  by (simp add: simulateBuyTransactions_def logger_log_def Let_def winds_down_append)

lemma winds_down_start:
  "winds_down (timers s) (timers (startBlockchainListener e gid cfg opens s))"
proof -
  let ?s2 = "stop_existing (listenerId gid (tokenAddress cfg))
               (logger_log ''Starting blockchain listener'' s)"
  have first: "winds_down (timers s) (timers ?s2)"
    using winds_down_stop_existing
            [of "logger_log ''Starting blockchain listener'' s"
               "listenerId gid (tokenAddress cfg)"]
    by (simp add: logger_log_def)
  have second: "winds_down (timers ?s2) (timers (startBlockchainListener e gid cfg opens s))"
  proof (cases opens)
    case True
    then show ?thesis
      by (simp add: startBlockchainListener_opens Let_def winds_down_append)
  next
    case False
    have "winds_down (timers ?s2)
            (timers (simulateBuyTransactions gid cfg
                       (logger_log ''Falling back to transaction simulation for testing''
                          (logger_error ''Failed to start blockchain monitoring'' ?s2))))"
      using winds_down_simulateBuyTransactions
              [of "logger_log ''Falling back to transaction simulation for testing''
                     (logger_error ''Failed to start blockchain monitoring'' ?s2)" gid cfg]
      by (simp add: logger_log_def logger_error_def)
    then show ?thesis
      using False
      by (simp add: startBlockchainListener_def monitorBnbDexSwaps_def
            monitorSolanaDexSwaps_def Let_def winds_down_refl logger_error_def)
  qed
  show ?thesis
    using first second by (rule winds_down_trans)
qed

lemma winds_down_stop_key: "winds_down (timers s) (timers (stop_key pre k s))"
  by (simp add: stop_key_def Let_def winds_down_listener_stop winds_down_refl
        logger_error_def split: option.splits)

lemma winds_down_fold_stop_key: "winds_down (timers s) (timers (fold (stop_key pre) ks s))"
proof (induction ks arbitrary: s)
  case Nil
  show ?case by (simp add: winds_down_refl)
next
  case (Cons k ks)
  show ?case
    using winds_down_stop_key [of s pre k] Cons.IH [of "stop_key pre k s"]
    by (simp add: winds_down_trans)
qed

lemma winds_down_stop: "winds_down (timers s) (timers (stopBlockchainListener gid s))"
  using winds_down_fold_stop_key
          [of "logger_log ''Stopping blockchain listeners for group'' s"]
  by (simp add: stopBlockchainListener_def Let_def logger_log_def)

lemma winds_down_interval_callback:
  "winds_down (timers s) (timers (interval_callback e h t s))"
  by (cases "monitor (timers s ! h)")
     (simp_all add: interval_callback_def Let_def winds_down_refl winds_down_clear'
        winds_down_sendBuyNotification logger_log_def)

lemma winds_down_finalizeSetup:
  "winds_down (timers s)
     (timers (finalizeSetup e chatId sd created updated replied opens s))"
proof (cases "sd_tokenInfo sd")
  case None
  then show ?thesis
    by (simp add: finalizeSetup_def Let_def setup_failed_def db_saveGroup_def logger_log_def
          logger_error_def winds_down_refl)
next
  case (Some ti)
  show ?thesis
  proof (cases replied)
    case False
    then show ?thesis
      using Some
      by (simp add: finalizeSetup_def Let_def setup_failed_def db_saveGroup_def
            logger_log_def logger_error_def winds_down_refl)
  next
    case True
    let ?cfg = "new_groupConfig sd created updated"
    let ?s2 = "(db_saveGroup chatId ?cfg s)
                 \<lparr>telegram := telegram (db_saveGroup chatId ?cfg s)
                    @ [ReplyWithPhoto chatId
                         (if sd_imageFileId sd = ''default'' then DefaultImage
                          else FileId (sd_imageFileId sd))
                         (setup_caption sd ti) True]\<rparr>"
    have same: "timers ?s2 = timers s"
      by (simp add: db_saveGroup_def logger_log_def)
    have result: "finalizeSetup e chatId sd created updated replied opens s
                  = logger_log ''Setup completed''
                      (startBlockchainListener e chatId ?cfg opens ?s2)"
      using Some True by (simp add: finalizeSetup_def Let_def)
    have "winds_down (timers ?s2) (timers (startBlockchainListener e chatId ?cfg opens ?s2))"
      by (rule winds_down_start)
    then show ?thesis
      unfolding result same by (simp add: logger_log_def)
  qed
qed

lemma winds_down_bot_step: "winds_down (timers s) (timers (bot_step e ev s))"
  by (cases ev)
     (simp_all add: winds_down_finalizeSetup winds_down_start winds_down_stop
        winds_down_interval_callback)

lemma winds_down_bot_run: "winds_down (timers s) (timers (bot_run e evs s))"
  unfolding bot_run_def
proof (induction evs arbitrary: s)
  case Nil
  show ?case by (simp add: winds_down_refl)
next
  case (Cons ev evs)
  show ?case
    using winds_down_bot_step [of s e ev] Cons.IH [of "bot_step e ev s"]
    by (simp add: winds_down_trans)
qed

text \<open>
  The listeners of the bot itself keep the contract of C6: once \<open>stop()\<close> has been called
  on a listener, its timer stays cleared whatever happens to the bot afterwards, and a
  cleared timer calls nothing, so nothing is sent for it.
\<close>

lemma stopped_listener_stays_silent:
  assumes "h < length (timers s)"
  shows "h < length (timers (bot_run e evs (listener_stop h s)))
         \<and> \<not> interval (timers (bot_run e evs (listener_stop h s)) ! h)
         \<and> interval_callback e h t (bot_run e evs (listener_stop h s))
             = bot_run e evs (listener_stop h s)"
proof -
  let ?s' = "listener_stop h s"
  have cleared: "h < length (timers ?s')" "\<not> interval (timers ?s' ! h)"
    using assms by (simp_all add: listener_stop_def)
  have "winds_down (timers ?s') (timers (bot_run e evs ?s'))"
    by (rule winds_down_bot_run)
  then have "h < length (timers (bot_run e evs ?s'))"
    and "\<not> interval (timers (bot_run e evs ?s') ! h)"
    using cleared by (auto simp: winds_down_def)
  then show ?thesis
    by (simp add: interval_callback_def)
qed

lemma list_all_delete: "list_all P al \<Longrightarrow> list_all P (AList.delete k al)"
  by (induction al) auto

lemma list_all_update: "list_all P al \<Longrightarrow> P (k, v) \<Longrightarrow> list_all P (AList.update k v al)"
  by (induction al) auto

lemma handles_allocated_mono:
  assumes "handles_allocated s" and "activeListeners s' = activeListeners s"
    and "length (timers s) \<le> length (timers s')"
  shows "handles_allocated s'"
  using assms by (auto simp: handles_allocated_def list_all_iff)

lemma handles_allocated_stop_existing:
  assumes "handles_allocated s"
  shows "handles_allocated (stop_existing lid s)"
proof (cases "map_of (activeListeners s) lid")
  case None
  then show ?thesis using assms by (simp add: stop_existing_def)
next
  case (Some h)
  have "list_all (\<lambda>kv. snd kv < length (timers s)) (AList.delete lid (activeListeners s))"
    using assms unfolding handles_allocated_def by (rule list_all_delete)
  then show ?thesis
    using Some
    by (simp add: stop_existing_def Let_def handles_allocated_def
          length_timers_listener_stop activeListeners_listener_stop)
qed

lemma handles_allocated_simulate:
  assumes "handles_allocated s"
  shows "handles_allocated (simulateBuyTransactions gid cfg s)"
proof -
  have "list_all (\<lambda>kv. snd kv < Suc (length (timers s))) (activeListeners s)"
    using assms by (auto simp: handles_allocated_def list_all_iff)
  then have "list_all (\<lambda>kv. snd kv < Suc (length (timers s)))
               (AList.update (listenerId gid (tokenAddress cfg) @ ''_sim'') (length (timers s))
                  (activeListeners s))"
    by (rule list_all_update) simp
  then show ?thesis
    by (simp add: simulateBuyTransactions_def logger_log_def Let_def handles_allocated_def)
qed

lemma handles_allocated_start:
  assumes "handles_allocated s"
  shows "handles_allocated (startBlockchainListener e gid cfg opens s)"
proof -
  let ?s2 = "stop_existing (listenerId gid (tokenAddress cfg))
               (logger_log ''Starting blockchain listener'' s)"
  have "handles_allocated (logger_log ''Starting blockchain listener'' s)"
    using assms by (simp add: handles_allocated_def logger_log_def)
  then have s2: "handles_allocated ?s2"
    by (rule handles_allocated_stop_existing)
  show ?thesis
  proof (cases opens)
    case True
    have "list_all (\<lambda>kv. snd kv < Suc (length (timers ?s2))) (activeListeners ?s2)"
      using s2 by (auto simp: handles_allocated_def list_all_iff)
    then have "list_all (\<lambda>kv. snd kv < Suc (length (timers ?s2)))
                 (AList.update (listenerId gid (tokenAddress cfg)) (length (timers ?s2))
                    (activeListeners ?s2))"
      by (rule list_all_update) simp
    then show ?thesis
      using True by (simp add: startBlockchainListener_opens Let_def handles_allocated_def)
  next
    case False
    have "handles_allocated (logger_log ''Falling back to transaction simulation for testing''
                               (logger_error ''Failed to start blockchain monitoring'' ?s2))"
      using s2 by (simp add: handles_allocated_def logger_log_def logger_error_def)
    then have "handles_allocated
                 (simulateBuyTransactions gid cfg
                    (logger_log ''Falling back to transaction simulation for testing''
                       (logger_error ''Failed to start blockchain monitoring'' ?s2)))"
      by (rule handles_allocated_simulate)
    moreover have "handles_allocated (logger_error ''Failed to start blockchain monitoring'' ?s2)"
      using s2 by (simp add: handles_allocated_def logger_error_def)
    ultimately show ?thesis
      using False
      by (simp add: startBlockchainListener_def monitorBnbDexSwaps_def
            monitorSolanaDexSwaps_def Let_def)
  qed
qed

lemma handles_allocated_stop_key:
  assumes "handles_allocated s"
  shows "handles_allocated (stop_key pre k s)"
proof (cases "prefix pre k")
  case False
  then show ?thesis using assms by (simp add: stop_key_def)
next
  case True
  show ?thesis
  proof (cases "map_of (activeListeners s) k")
    case None
    then show ?thesis
      using assms True by (simp add: stop_key_def handles_allocated_def logger_error_def)
  next
    case (Some h)
    have "list_all (\<lambda>kv. snd kv < length (timers s)) (AList.delete k (activeListeners s))"
      using assms unfolding handles_allocated_def by (rule list_all_delete)
    then show ?thesis
      using Some True
      by (simp add: stop_key_def Let_def handles_allocated_def
            length_timers_listener_stop activeListeners_listener_stop)
  qed
qed

lemma handles_allocated_fold_stop_key:
  "handles_allocated s \<Longrightarrow> handles_allocated (fold (stop_key pre) ks s)"
  by (induction ks arbitrary: s) (simp_all add: handles_allocated_stop_key)

lemma handles_allocated_stop:
  assumes "handles_allocated s"
  shows "handles_allocated (stopBlockchainListener gid s)"
proof -
  have "handles_allocated (logger_log ''Stopping blockchain listeners for group'' s)"
    using assms by (simp add: handles_allocated_def logger_log_def)
  then show ?thesis
    by (simp add: stopBlockchainListener_def Let_def handles_allocated_fold_stop_key)
qed

lemma activeListeners_interval_callback:
  "activeListeners (interval_callback e h t s) = activeListeners s"
  by (cases "monitor (timers s ! h)")
     (simp_all add: interval_callback_def Let_def sendBuyNotification_effect logger_log_def)

lemma handles_allocated_interval_callback:
  assumes "handles_allocated s"
  shows "handles_allocated (interval_callback e h t s)"
proof (rule handles_allocated_mono [OF assms])
  show "activeListeners (interval_callback e h t s) = activeListeners s"
    by (rule activeListeners_interval_callback)
  show "length (timers s) \<le> length (timers (interval_callback e h t s))"
    using winds_down_interval_callback [of s e h t] by (simp add: winds_down_def)
qed

lemma handles_allocated_finalizeSetup:
  assumes "handles_allocated s"
  shows "handles_allocated (finalizeSetup e chatId sd created updated replied opens s)"
proof (cases "sd_tokenInfo sd")
  case None
  then show ?thesis
    using assms
    by (simp add: finalizeSetup_def Let_def setup_failed_def db_saveGroup_def logger_log_def
          logger_error_def handles_allocated_def)
next
  case (Some ti)
  show ?thesis
  proof (cases replied)
    case False
    then show ?thesis
      using Some assms
      by (simp add: finalizeSetup_def Let_def setup_failed_def db_saveGroup_def
            logger_log_def logger_error_def handles_allocated_def)
  next
    case True
    let ?cfg = "new_groupConfig sd created updated"
    let ?s2 = "(db_saveGroup chatId ?cfg s)
                 \<lparr>telegram := telegram (db_saveGroup chatId ?cfg s)
                    @ [ReplyWithPhoto chatId
                         (if sd_imageFileId sd = ''default'' then DefaultImage
                          else FileId (sd_imageFileId sd))
                         (setup_caption sd ti) True]\<rparr>"
    have "handles_allocated ?s2"
      using assms by (simp add: handles_allocated_def db_saveGroup_def logger_log_def)
    then have "handles_allocated (startBlockchainListener e chatId ?cfg opens ?s2)"
      by (rule handles_allocated_start)
    then have "handles_allocated
                 (logger_log ''Setup completed''
                    (startBlockchainListener e chatId ?cfg opens ?s2))"
      by (simp add: handles_allocated_def logger_log_def)
    moreover have "finalizeSetup e chatId sd created updated replied opens s
                   = logger_log ''Setup completed''
                       (startBlockchainListener e chatId ?cfg opens ?s2)"
      using Some True by (simp add: finalizeSetup_def Let_def)
    ultimately show ?thesis by simp
  qed
qed

lemma handles_allocated_bot_step:
  "handles_allocated s \<Longrightarrow> handles_allocated (bot_step e ev s)"
  by (cases ev)
     (simp_all add: handles_allocated_finalizeSetup handles_allocated_start
        handles_allocated_stop handles_allocated_interval_callback)

text \<open>Every state the bot reaches from its empty start has only allocated handles.\<close>

lemma handles_allocated_bot_run:
  "handles_allocated s \<Longrightarrow> handles_allocated (bot_run e evs s)"
  unfolding bot_run_def
  by (induction evs arbitrary: s) (simp_all add: handles_allocated_bot_step)

section \<open>Purchases reported after \<open>stop()\<close>\<close>

lemma silent_after_stop_all_Emitted:
  "list_all is_Emitted h \<Longrightarrow> silent_after_stop h"
  by (induction h) (simp_all add: silent_after_stop_def)

lemma silent_after_stop_snoc_stop:
  assumes "silent_after_stop h"
  shows "silent_after_stop (h @ [StopReturned])"
proof (cases "list_all is_Emitted h")
  case True
  then have "dropWhile is_Emitted (h @ [StopReturned]) = dropWhile is_Emitted [StopReturned]"
    by (intro dropWhile_append2) (simp add: list_all_iff)
  then show ?thesis
    by (simp add: silent_after_stop_def)
next
  case False
  then obtain x where "x \<in> set h" and "\<not> is_Emitted x"
    by (auto simp: list_all_iff)
  then have "dropWhile is_Emitted (h @ [StopReturned])
             = dropWhile is_Emitted h @ [StopReturned]"
    by (rule dropWhile_append1)
  then show ?thesis
    using assms by (simp add: silent_after_stop_def)
qed

text \<open>
  The Solana monitor of \<open>blockchain-monitor.js\<close> keeps the contract: its callback tests
  \<open>running\<close> and reports in the same turn.
\<close>

lemma bm_solana_step_invariant:
  assumes "silent_after_stop (history m)" and "running m \<longrightarrow> list_all is_Emitted (history m)"
  shows "silent_after_stop (history (bm_solana_step st m))
         \<and> (running (bm_solana_step st m) \<longrightarrow> list_all is_Emitted (history (bm_solana_step st m)))"
proof (cases st)
  case (SFire hit tx)
  show ?thesis
  proof (cases "checkInterval m \<and> running m \<and> hit")
    case True
    then have "list_all is_Emitted (history m @ [Emitted tx])"
      using assms(2) by simp
    then show ?thesis
      using True SFire by (simp add: bm_solana_fire_def silent_after_stop_all_Emitted)
  next
    case False
    then show ?thesis
      using assms SFire by (auto simp: bm_solana_fire_def)
  qed
next
  case SStop
  then show ?thesis
    using assms(1) by (simp add: bm_solana_stop_def silent_after_stop_snoc_stop)
qed

lemma bm_solana_silent_after_stop:
  assumes "bm_monitorSolanaDexSwaps isAddress = Inr m"
  shows "silent_after_stop (history (fold bm_solana_step steps m))"
proof -
  have start: "silent_after_stop (history m) \<and> (running m \<longrightarrow> list_all is_Emitted (history m))"
    using assms
    by (auto simp: bm_monitorSolanaDexSwaps_def silent_after_stop_def split: if_splits)
  have "silent_after_stop (history (fold bm_solana_step steps m'))
        \<and> (running (fold bm_solana_step steps m')
             \<longrightarrow> list_all is_Emitted (history (fold bm_solana_step steps m')))"
    if "silent_after_stop (history m') \<and> (running m' \<longrightarrow> list_all is_Emitted (history m'))"
    for m'
    using that
  proof (induction steps arbitrary: m')
    case Nil
    then show ?case by simp
  next
    case (Cons st steps)
    have "silent_after_stop (history (bm_solana_step st m'))
          \<and> (running (bm_solana_step st m')
               \<longrightarrow> list_all is_Emitted (history (bm_solana_step st m')))"
      using Cons.prems by (intro bm_solana_step_invariant) simp_all
    then show ?case
      using Cons.IH by simp
  qed
  then show ?thesis
    using start by blast
qed

text \<open>
  C6 fails on the BNB monitor of \<open>blockchain-monitor.js\<close>. The monitor is started at
  block 100; its timer fires and the callback waits for the block number; \<open>stop()\<close> is
  called and returns; the block number 101 arrives and the draw says that a purchase is
  to be reported: the callback is called with the purchase after \<open>stop()\<close> has returned.
\<close>

theorem bnb_monitor_reports_after_stop:
  "bm_monitorBnbDexSwaps True True (Some 100) = Inr monitor100
   \<and> history (fold bm_bnb_step [Fire, Stop, Answer (Some 101) True (tx_usd ''75.00'')]
                monitor100)
       = [StopReturned, Emitted (tx_usd ''75.00'')]
   \<and> \<not> silent_after_stop
          (history (fold bm_bnb_step [Fire, Stop, Answer (Some 101) True (tx_usd ''75.00'')]
                      monitor100))"
  by (simp add: bm_monitorBnbDexSwaps_def monitor100_def bm_bnb_fire_def bm_bnb_stop_def
        bm_bnb_resume_def silent_after_stop_def Let_def)

end
